theory Spec2Isabelle
  imports Complex_Main "HOL-Library.Char_ord" "HOL-Library.List_Lexorder" "HOL-Library.AList"
begin

section \<open>Python values shared by the modules\<close>

text \<open>
  Exceptions are values: every \<^verbatim>\<open>raise\<close>, failed \<^verbatim>\<open>assert\<close> and failed name
  lookup of the source is an \<open>Inl\<close> branch of the model.  The string is the message
  (or, for a name error, the name).
\<close>

datatype py_error =
    ValueError string
  | AssertionError string
  | RuntimeError string
  | NameError string
  | UnboundLocalError string
  | IndexError string
  | KeyError string
  | TypeError string
  | AttributeError string
  | InvalidArgumentError string

text \<open>
  \<^verbatim>\<open>str.lower\<close> on the ASCII range: the upper-case letters move by 32, every other
  character stays.  A \<open>string\<close> here is a list of bytes; the aliases of the mapping are
  ASCII.
\<close>

definition lower_char :: "char \<Rightarrow> char" where
  "lower_char c =
     (if CHR ''A'' \<le> c \<and> c \<le> CHR ''Z'' then char_of (of_char c + (32::nat)) else c)"

definition lower :: "string \<Rightarrow> string" where
  "lower s = map lower_char s"

text \<open>\<^verbatim>\<open>sep.join(xs)\<close>\<close>

fun join :: "string \<Rightarrow> string list \<Rightarrow> string" where
  "join sep [] = []"
| "join sep [x] = x"
| "join sep (x # y # ys) = x @ sep @ join sep (y # ys)"

section \<open>odin/bay/distribution\_alias.py\<close>

datatype distribution_layer =
    BernoulliLayer
  | ZeroInflatedBernoulliLayer
  | NormalLayer
  | LogNormalLayer
  | NegativeBinomialLayer
  | ZeroInflatedNegativeBinomialLayer
  | PoissonLayer
  | ZeroInflatedPoissonLayer
  | DirichletLayer
  | OneHotCategoricalLayer

datatype distribution_class =
    Bernoulli
  | Normal
  | LogNormal
  | NegativeBinomial
  | Poisson
  | Dirichlet
  | OneHotCategorical

text \<open>
  A key of the dictionary literal handed to \<^verbatim>\<open>multikeysdict\<close>: one string, or a tuple
  of strings.
\<close>

datatype dict_key = Key string | Keys "string list"

text \<open>
  Modelled from the spec: \<^verbatim>\<open>multikeysdict\<close> (odin.utils.python\_utils, not among the
  source files).  The spec speaks of every alias being registered in the mapping, so a
  tuple key registers each of its strings for the tuple's value; entries keep the order
  of the literal.  The dictionary is an association list, looked up with \<open>map_of\<close>.
\<close>

definition multikeysdict :: "(dict_key \<times> 'v) list \<Rightarrow> (string \<times> 'v) list" where
  "multikeysdict items =
     concat (map (\<lambda>(k, v). case k of Key s \<Rightarrow> [(s, v)] | Keys ss \<Rightarrow> map (\<lambda>s. (s, v)) ss) items)"

definition dist_mapping :: "(string \<times> (distribution_layer \<times> distribution_class)) list" where
  "dist_mapping = multikeysdict
     [(Keys [''bern'', ''bernoulli''], (BernoulliLayer, Bernoulli)),
      (Keys [''zibernoulli'', ''zeroinflatedbernoulli''], (ZeroInflatedBernoulliLayer, Bernoulli)),
      (Keys [''normal'', ''gaussian''], (NormalLayer, Normal)),
      (Key ''lognormal'', (LogNormalLayer, LogNormal)),
      (Keys [''nb'', ''negativebinomial''], (NegativeBinomialLayer, NegativeBinomial)),
      (Keys [''zinb'', ''zinegativebinomial'', ''zeroinflatednegativebinomial''],
         (ZeroInflatedNegativeBinomialLayer, NegativeBinomial)),
      (Keys [''pois'', ''poisson''], (PoissonLayer, Poisson)),
      (Keys [''zipois'', ''zipoisson'', ''zeroinflatedpoisson''],
         (ZeroInflatedPoissonLayer, Poisson)),
      (Key ''dirichlet'', (DirichletLayer, Dirichlet)),
      (Key ''onehot'', (OneHotCategoricalLayer, OneHotCategorical))]"

text \<open>The message of the \<^verbatim>\<open>ValueError\<close>: the two \<^verbatim>\<open>%s\<close> filled in.\<close>

definition unknown_alias_message :: "string \<Rightarrow> string list \<Rightarrow> string" where
  "unknown_alias_message alias keys =
     ''Cannot find distribution with alias: '' @ [CHR 0x27] @ alias @ [CHR 0x27] @
     '', all available distributions: '' @ join '', '' keys"

definition parse_distribution ::
  "string \<Rightarrow> py_error + (distribution_layer \<times> distribution_class)" where
  "parse_distribution alias0 =
     (let alias = lower alias0 in
      case map_of dist_mapping alias of
        None \<Rightarrow> Inl (ValueError (unknown_alias_message alias (map fst dist_mapping)))
      | Some (layer, dist_cls) \<Rightarrow> Inr (layer, dist_cls))"

section \<open>TensorFlow tensors\<close>

text \<open>
  A tensor is its shape and its elements in row-major order; the elements are of an
  arbitrary type, nothing below computes with them.  A tensor handed over by TensorFlow
  is well formed: it has as many elements as its shape says.
\<close>

record 'a tensor =
  shape :: "nat list"
  elems :: "'a list"

definition well_formed :: "'a tensor \<Rightarrow> bool" where
  "well_formed t = (length (elems t) = prod_list (shape t))"

definition ndims :: "'a tensor \<Rightarrow> nat" where
  "ndims t = length (shape t)"

text \<open>\<^verbatim>\<open>tf.expand_dims(t, axis=0)\<close>: a new leading axis of size 1.\<close>

definition expand_dims0 :: "'a tensor \<Rightarrow> 'a tensor" where
  "expand_dims0 t = t\<lparr>shape := 1 # shape t\<rparr>"

text \<open>The first \<open>count\<close> consecutive pieces of length \<open>n\<close> of a list.\<close>

primrec chunks :: "nat \<Rightarrow> nat \<Rightarrow> 'a list \<Rightarrow> 'a list list" where
  "chunks 0 n xs = []"
| "chunks (Suc count) n xs = take n xs # chunks count n (drop n xs)"

text \<open>
  \<^verbatim>\<open>tf.tile(t, multiples)\<close>: along every axis the tensor is repeated as often as the
  multiple of that axis says.  On the row-major elements: the sub-tensors along the
  first axis are tiled by the remaining multiples, and their sequence is repeated.
  TensorFlow refuses a list of multiples whose length is not the rank.
\<close>

fun tile_elems :: "nat list \<Rightarrow> nat list \<Rightarrow> 'a list \<Rightarrow> 'a list" where
  "tile_elems (s # ss) (m # ms) xs =
     concat (replicate m (concat (map (tile_elems ss ms) (chunks s (prod_list ss) xs))))"
| "tile_elems ss ms xs = xs"

definition tf_tile :: "'a tensor \<Rightarrow> nat list \<Rightarrow> py_error + 'a tensor" where
  "tf_tile t multiples =
     (if length multiples \<noteq> ndims t
      then Inl (InvalidArgumentError ''Expected multiples argument to be a vector of length rank'')
      else Inr \<lparr>shape = map2 (*) multiples (shape t),
                elems = tile_elems (shape t) multiples (elems t)\<rparr>)"

text \<open>
  \<^verbatim>\<open>tf.split(t, 2, axis=0)\<close>: two tensors, the first and the second half of the
  sub-tensors along the first axis.  TensorFlow refuses a tensor without an axis and a
  first axis whose size is odd.
\<close>

definition tf_split2 :: "'a tensor \<Rightarrow> py_error + ('a tensor \<times> 'a tensor)" where
  "tf_split2 t =
     (case shape t of
        [] \<Rightarrow> Inl (InvalidArgumentError ''split of a tensor of rank 0'')
      | s # ss \<Rightarrow>
          if s mod 2 \<noteq> 0
          then Inl (InvalidArgumentError ''Dimension size must be evenly divisible by 2'')
          else let h = s div 2; k = h * prod_list ss in
            Inr (\<lparr>shape = h # ss, elems = take k (elems t)\<rparr>,
                 \<lparr>shape = h # ss, elems = drop k (elems t)\<rparr>))"

section \<open>odin/bay/layers/dense.py\<close>

text \<open>
  The class of the posterior layer: one of the layers of the alias table, or a
  \<^verbatim>\<open>DistributionLambda\<close> subclass handed in by the caller.
\<close>

datatype 'l layer_class = OdinLayer distribution_layer | UserLayer 'l

datatype 'l posterior_arg = Alias string | LayerClass 'l

text \<open>What \<^verbatim>\<open>params_size\<close> receives first: the event shape, or its product.\<close>

datatype size_arg = EventShape "nat list" | EventSize nat

text \<open>
  What \<^verbatim>\<open>_params_size\<close> reads off a layer by reflection: the argument names of its
  \<^verbatim>\<open>params_size\<close>; the closure of its \<^verbatim>\<open>_make_distribution_fn\<close>, as the dictionary
  from free variables to the contents of their cells, \<open>None\<close> when the function has no
  closure (\<^verbatim>\<open>__closure__\<close> is \<^verbatim>\<open>None\<close>); and \<^verbatim>\<open>params_size\<close> itself.
\<close>

record 'c layer_reflection =
  ps_args :: "string list"
  ps_closure :: "(string \<rightharpoonup> 'c) option"
  ps_fn :: "size_arg \<Rightarrow> (string \<times> 'c) list \<Rightarrow> nat"

text \<open>
  The keyword arguments that \<^verbatim>\<open>_params_size\<close> takes from the closure: for every
  argument name after the first that is a free variable, its value.
\<close>

definition closure_kwargs :: "(string \<rightharpoonup> 'c) \<Rightarrow> string list \<Rightarrow> (string \<times> 'c) list" where
  "closure_kwargs closures names =
     concat (map (\<lambda>k. case closures k of None \<Rightarrow> [] | Some v \<Rightarrow> [(k, v)]) names)"

text \<open>
  \<^verbatim>\<open>_params_size\<close>.  \<^verbatim>\<open>args[0]\<close> raises \<^verbatim>\<open>IndexError\<close> when \<^verbatim>\<open>params_size\<close> has no
  argument, and \<^verbatim>\<open>zip(fn.__code__.co_freevars, fn.__closure__)\<close> raises \<^verbatim>\<open>TypeError\<close>
  when there are further arguments and no closure.
\<close>

definition params_size_of :: "'c layer_reflection \<Rightarrow> nat list \<Rightarrow> py_error + nat" where
  "params_size_of layer event_shape =
     (case ps_args layer of
        [] \<Rightarrow> Inl (IndexError ''list index out of range'')
      | a0 # rest \<Rightarrow>
          let ev = (if ''event_size'' = a0 then EventSize (prod_list event_shape)
                    else EventShape event_shape)
          in if length (ps_args layer) > 1
             then (case ps_closure layer of
                     None \<Rightarrow> Inl (TypeError ''zip argument #2 must support iteration'')
                   | Some closures \<Rightarrow> Inr (ps_fn layer ev (closure_kwargs closures rest)))
             else Inr (ps_fn layer ev []))"

text \<open>
  \<^verbatim>\<open>convert_to_tensor_fn\<close>: \<^verbatim>\<open>Distribution.sample\<close> or another function; and what
  \<^verbatim>\<open>posterior_layer\<close> hands to the layer: the partial application of
  \<^verbatim>\<open>Distribution.sample\<close> to the sample shape, or the other function as it is.
\<close>

datatype 'f convert_fn = DistributionSample | OtherFn 'f

datatype 'f layer_fn = SampleWith "nat list" | Plain 'f

text \<open>
  \<^verbatim>\<open>posterior_kwargs\<close>: the three keys the constructor pops, and the rest.
\<close>

record ('f, 'k) posterior_kwargs =
  kw_event_shape :: "nat list option"
  kw_event_size :: "nat list option"
  kw_convert_to_tensor_fn :: "'f convert_fn option"
  kw_rest :: 'k

text \<open>
  The distribution object a call returns, with the two attributes the call attaches
  to it; \<open>None\<close> is an attribute that has not been set.  \<^verbatim>\<open>KLdivergence\<close> is
  recorded as its three constructor arguments.
\<close>

record ('d, 'q) KLdivergence =
  kl_posterior :: 'd
  kl_prior :: "'q option"
  kl_sample_shape :: "nat list option"

record 'd distribution =
  base :: 'd
  KL_divergence :: "('d, 'd) KLdivergence option"
  prior_attr :: "'d option option"

text \<open>The attributes of a \<^verbatim>\<open>DenseDistribution\<close>; \<open>units\<close> is the one of \<^verbatim>\<open>Dense\<close>.\<close>

record ('d, 'l, 'f, 'k) DenseDistribution =
  units :: nat
  convert_to_tensor_fn :: "'f convert_fn"
  prior :: "'d option"
  event_shape :: "nat list"
  posterior_class :: "'l layer_class"
  posterior_kwargs_rest :: 'k
  dropout :: real
  disable_projection :: bool
  last_distribution :: "'d distribution option"

text \<open>
  \<^verbatim>\<open>DenseDistribution.__init__\<close>.  \<open>reflect\<close> stands for instantiating the posterior
  layer (\<^verbatim>\<open>self.posterior_layer()\<close>) and inspecting it.  The assertion on the prior
  holds by typing: a prior is \<^verbatim>\<open>None\<close> or a distribution.
\<close>

definition DenseDistribution_init ::
  "('l layer_class \<Rightarrow> nat list \<Rightarrow> 'f layer_fn \<Rightarrow> 'k \<Rightarrow> 'c layer_reflection) \<Rightarrow>
   nat list \<Rightarrow> 'l posterior_arg \<Rightarrow> ('f, 'k) posterior_kwargs \<Rightarrow> 'd option \<Rightarrow> real \<Rightarrow> bool \<Rightarrow>
   py_error + ('d, 'l, 'f, 'k) DenseDistribution" where
  "DenseDistribution_init reflect event_shape0 posterior0 kwargs prior0 dropout0 disable0 =
     (let event_shape1 = (case kw_event_shape kwargs of Some s \<Rightarrow> s | None \<Rightarrow> event_shape0);
          event_shape2 = (case kw_event_size kwargs of Some s \<Rightarrow> s | None \<Rightarrow> event_shape1);
          fn = (case kw_convert_to_tensor_fn kwargs of
                  Some f \<Rightarrow> f | None \<Rightarrow> DistributionSample)
      in case (case posterior0 of
                 LayerClass c \<Rightarrow> Inr (UserLayer c)
               | Alias a \<Rightarrow> (case parse_distribution a of
                              Inl e \<Rightarrow> Inl e | Inr (layer, _) \<Rightarrow> Inr (OdinLayer layer))) of
           Inl e \<Rightarrow> Inl e
         | Inr post_layer_cls \<Rightarrow>
             (case params_size_of
                     (reflect post_layer_cls event_shape2
                        (case fn of DistributionSample \<Rightarrow> SampleWith [] | OtherFn f \<Rightarrow> Plain f)
                        (kw_rest kwargs))
                     event_shape2 of
                Inl e \<Rightarrow> Inl e
              | Inr params_size \<Rightarrow>
                  Inr \<lparr>units = params_size,
                       convert_to_tensor_fn = fn,
                       prior = prior0,
                       event_shape = event_shape2,
                       posterior_class = post_layer_cls,
                       posterior_kwargs_rest = kw_rest kwargs,
                       dropout = dropout0,
                       disable_projection = disable0,
                       last_distribution = None\<rparr>))"

text \<open>The property \<^verbatim>\<open>posterior\<close>: the distribution of the last call.\<close>

definition posterior :: "('d, 'l, 'f, 'k) DenseDistribution \<Rightarrow> 'd distribution option" where
  "posterior self = last_distribution self"

text \<open>
  \<^verbatim>\<open>DenseDistribution.call\<close>.  Taken as parameters, being TensorFlow's and the layers':
  \<open>Dense_call\<close>, the projection of \<^verbatim>\<open>Dense\<close> with the given number of units;
  \<open>bk_dropout\<close>; \<open>layer_call\<close>, building the posterior layer and applying it to the
  parameters; \<open>has_prior\<close>, whether the distribution built has an attribute
  \<^verbatim>\<open>prior\<close> of its own.  The result is the layer after the call and what the call
  returns or raises: the distribution is recorded as soon as it is built, and it is the
  same object that then receives the attributes.
\<close>

definition call ::
  "(nat \<Rightarrow> 'p \<Rightarrow> 'p) \<Rightarrow> ('p \<Rightarrow> real \<Rightarrow> bool option \<Rightarrow> 'p) \<Rightarrow>
   ('l layer_class \<Rightarrow> nat list \<Rightarrow> 'f layer_fn \<Rightarrow> 'k \<Rightarrow> 'p \<Rightarrow> bool option \<Rightarrow> 'd) \<Rightarrow> ('d \<Rightarrow> bool) \<Rightarrow>
   ('d, 'l, 'f, 'k) DenseDistribution \<Rightarrow> 'p \<Rightarrow> bool option \<Rightarrow> nat list \<Rightarrow> bool \<Rightarrow> 'd option \<Rightarrow>
   ('d, 'l, 'f, 'k) DenseDistribution \<times> (py_error + 'd distribution)" where
  "call Dense_call bk_dropout layer_call has_prior self inputs training sample_shape projection
      prior0 =
     (let params1 = (if projection \<and> \<not> disable_projection self
                     then Dense_call (units self) inputs else inputs);
          params2 = (if dropout self > 0 then bk_dropout params1 (dropout self) training
                     else params1);
          fn = (case convert_to_tensor_fn self of
                  DistributionSample \<Rightarrow> SampleWith sample_shape | OtherFn f \<Rightarrow> Plain f);
          d = layer_call (posterior_class self) (event_shape self) fn
                (posterior_kwargs_rest self) params2 training;
          prior1 = (case prior0 of None \<Rightarrow> prior self | Some p \<Rightarrow> Some p);
          obj = \<lparr>base = d,
                 KL_divergence = Some \<lparr>kl_posterior = d, kl_prior = prior1,
                                        kl_sample_shape = None\<rparr>,
                 prior_attr = None\<rparr>
      in if has_prior d
         then (self\<lparr>last_distribution := Some obj\<rparr>,
               Inl (AssertionError ''Cannot assign prior to the output''))
         else let obj' = obj\<lparr>prior_attr := Some prior1\<rparr>
              in (self\<lparr>last_distribution := Some obj'\<rparr>, Inr obj'))"

text \<open>What \<^verbatim>\<open>kl_divergence\<close> receives as \<^verbatim>\<open>sample_shape\<close>: a number, or anything else.\<close>

datatype sample_shape_arg = Number int | NotNumber "nat list"

text \<open>
  \<^verbatim>\<open>DenseDistribution.kl_divergence\<close>.  \<open>kl\<close> is the helper \<^verbatim>\<open>kl_divergence\<close> of
  odin.bay.helpers (not among the source files), taken as a parameter with its
  arguments \<^verbatim>\<open>q\<close>, \<^verbatim>\<open>p\<close>, \<^verbatim>\<open>analytic\<close>, \<^verbatim>\<open>reverse\<close> and \<^verbatim>\<open>q_sample\<close>; by the
  docstring of the method, \<^verbatim>\<open>analytic\<close> selects the closed form and otherwise
  \<^verbatim>\<open>q_sample\<close> is the number of samples.
\<close>

definition kl_divergence ::
  "('d distribution \<Rightarrow> 'd \<Rightarrow> bool \<Rightarrow> bool \<Rightarrow> sample_shape_arg \<Rightarrow> py_error + 'a tensor) \<Rightarrow>
   ('d, 'l, 'f, 'k) DenseDistribution \<Rightarrow> 'd option \<Rightarrow> bool \<Rightarrow> sample_shape_arg \<Rightarrow> bool \<Rightarrow>
   py_error + 'a tensor" where
  "kl_divergence kl self prior0 analytic sample_shape reverse =
     (case (case prior0 of None \<Rightarrow> prior self | Some p \<Rightarrow> Some p) of
        None \<Rightarrow> Inl (AssertionError ''prior is not given!'')
      | Some p \<Rightarrow>
          (case posterior self of
             None \<Rightarrow> Inl (RuntimeError
               (''DenseDistribution must be called to create the distribution before '' @
                ''calculating the kl-divergence.''))
           | Some q \<Rightarrow>
               (case kl q p analytic reverse sample_shape of
                  Inl e \<Rightarrow> Inl e
                | Inr kullback_div \<Rightarrow>
                    if analytic
                    then let expanded = expand_dims0 kullback_div in
                      (case sample_shape of
                         Number n \<Rightarrow>
                           if n > 1
                           then tf_tile expanded (nat n # replicate (ndims expanded - 1) 1)
                           else Inr expanded
                       | NotNumber _ \<Rightarrow> Inr expanded)
                    else Inr kullback_div)))"

text \<open>
  How many copies of the divergence the analytic branch stacks: \<^verbatim>\<open>sample_shape\<close> when
  it is a number greater than 1, otherwise the one of the new axis.
\<close>

definition copies :: "sample_shape_arg \<Rightarrow> nat" where
  "copies sample_shape =
     (case sample_shape of Number n \<Rightarrow> if n > 1 then nat n else 1 | NotNumber _ \<Rightarrow> 1)"

section \<open>odin/fuel/\_image\_base.py\<close>





section \<open>Name resolution\<close>

text \<open>
  How Python resolves a name that a function body reads and neither assigns nor has as
  a parameter: the name is looked up in the module's namespace and then among the
  builtins, and the lookup raises \<^verbatim>\<open>NameError\<close> when neither binds it.  \<open>value_of\<close>
  gives the value of a name that is bound.
\<close>

definition load_global ::
  "(string \<Rightarrow> 'v) \<Rightarrow> string list \<Rightarrow> string list \<Rightarrow> string \<Rightarrow> py_error + 'v" where
  "load_global value_of module_names builtins n =
     (if n \<in> set module_names \<or> n \<in> set builtins then Inr (value_of n)
      else Inl (NameError n))"

text \<open>The names of the module \<^verbatim>\<open>builtins\<close> (CPython 3).\<close>

definition builtin_names :: "string list" where
  "builtin_names =
     [''ArithmeticError'', ''AssertionError'', ''AttributeError'', ''BaseException'',
      ''BaseExceptionGroup'', ''BlockingIOError'', ''BrokenPipeError'', ''BufferError'',
      ''BytesWarning'', ''ChildProcessError'', ''ConnectionAbortedError'', ''ConnectionError'',
      ''ConnectionRefusedError'', ''ConnectionResetError'', ''DeprecationWarning'', ''EOFError'',
      ''Ellipsis'', ''EncodingWarning'', ''EnvironmentError'', ''Exception'', ''ExceptionGroup'',
      ''False'', ''FileExistsError'', ''FileNotFoundError'', ''FloatingPointError'',
      ''FutureWarning'', ''GeneratorExit'', ''IOError'', ''ImportError'', ''ImportWarning'',
      ''IndentationError'', ''IndexError'', ''InterruptedError'', ''IsADirectoryError'',
      ''KeyError'', ''KeyboardInterrupt'', ''LookupError'', ''MemoryError'',
      ''ModuleNotFoundError'', ''NameError'', ''None'', ''NotADirectoryError'',
      ''NotImplemented'', ''NotImplementedError'', ''OSError'', ''OverflowError'',
      ''PendingDeprecationWarning'', ''PermissionError'', ''ProcessLookupError'',
      ''RecursionError'', ''ReferenceError'', ''ResourceWarning'', ''RuntimeError'',
      ''RuntimeWarning'', ''StopAsyncIteration'', ''StopIteration'', ''SyntaxError'',
      ''SyntaxWarning'', ''SystemError'', ''SystemExit'', ''TabError'', ''TimeoutError'',
      ''True'', ''TypeError'', ''UnboundLocalError'', ''UnicodeDecodeError'',
      ''UnicodeEncodeError'', ''UnicodeError'', ''UnicodeTranslateError'', ''UnicodeWarning'',
      ''UserWarning'', ''ValueError'', ''Warning'', ''ZeroDivisionError'', ''__build_class__'',
      ''__debug__'', ''__doc__'', ''__import__'', ''__loader__'', ''__name__'', ''__package__'',
      ''__spec__'', ''abs'', ''aiter'', ''all'', ''anext'', ''any'', ''ascii'', ''bin'', ''bool'',
      ''breakpoint'', ''bytearray'', ''bytes'', ''callable'', ''chr'', ''classmethod'',
      ''compile'', ''complex'', ''copyright'', ''credits'', ''delattr'', ''dict'', ''dir'',
      ''divmod'', ''enumerate'', ''eval'', ''exec'', ''exit'', ''filter'', ''float'', ''format'',
      ''frozenset'', ''getattr'', ''globals'', ''hasattr'', ''hash'', ''help'', ''hex'', ''id'',
      ''input'', ''int'', ''isinstance'', ''issubclass'', ''iter'', ''len'', ''license'',
      ''list'', ''locals'', ''map'', ''max'', ''memoryview'', ''min'', ''next'', ''object'',
      ''oct'', ''open'', ''ord'', ''pow'', ''print'', ''property'', ''quit'', ''range'', ''repr'',
      ''reversed'', ''round'', ''set'', ''setattr'', ''slice'', ''sorted'', ''staticmethod'',
      ''str'', ''sum'', ''super'', ''tuple'', ''type'', ''vars'', ''zip'']"

section \<open>odin/bay/vi/autoencoder/factor\_vae.py\<close>

text \<open>
  The names the module binds at its top level: what it imports, the two classes it
  defines, and the names every module has.
\<close>

definition factor_vae_module_names :: "string list" where
  "factor_vae_module_names =
     [''__name__'', ''__doc__'', ''__package__'', ''__loader__'', ''__spec__'', ''__file__'',
      ''__cached__'', ''__builtins__'',
      ''Optional'', ''np'', ''tf'', ''keras'', ''BetaVAE'', ''FactorDiscriminator'',
      ''TrainStep'', ''FactorStep'', ''FactorVAE'']"

text \<open>
  A trainable variable is an object; \<^verbatim>\<open>id(p)\<close> is its identity, the name is what else
  it carries.
\<close>

record variable =
  var_id :: nat
  var_name :: string

definition py_id :: "variable \<Rightarrow> nat" where
  "py_id p = var_id p"

text \<open>
  The attributes of a \<^verbatim>\<open>FactorVAE\<close> that the methods below read or write.  The step
  counter is a floating-point variable of the parent class that starts at \<^verbatim>\<open>0.\<close> and
  only ever has \<^verbatim>\<open>1.\<close> added: its value is a whole number.  \<open>'t\<close> is the type of the
  tensors of losses.
\<close>

record 't FactorVAE =
  step :: nat
  gamma :: 't
  disc_params :: "variable list"
  vae_params :: "variable list"

text \<open>
  \<^verbatim>\<open>FactorVAE.__init__\<close>, from the point where the discriminator has been set: the
  construction of the parent class and of the discriminator is Keras's, so the model's
  and the discriminator's \<^verbatim>\<open>trainable_variables\<close> at that point, the counter and
  \<^verbatim>\<open>gamma\<close> come as arguments.
\<close>

definition FactorVAE_init ::
  "nat \<Rightarrow> 't \<Rightarrow> variable list \<Rightarrow> variable list \<Rightarrow> 't FactorVAE" where
  "FactorVAE_init step0 gamma0 discriminator_trainable_variables trainable_variables =
     (let disc = discriminator_trainable_variables;
          exclude = set (map py_id disc);
          vae = filter (\<lambda>p. py_id p \<notin> exclude) trainable_variables
      in \<lparr>step = step0, gamma = gamma0, disc_params = disc, vae_params = vae\<rparr>)"

text \<open>
  \<^verbatim>\<open>FactorVAE.total_correlation\<close> and \<^verbatim>\<open>FactorVAE._elbo\<close>.  Parameters: the
  discriminator's \<^verbatim>\<open>total_correlation\<close>, the product of two tensors, and \<^verbatim>\<open>_elbo\<close> of
  the parent class, which returns the likelihood and the dictionary of divergences.
\<close>

definition total_correlation ::
  "('q \<Rightarrow> bool option \<Rightarrow> 't) \<Rightarrow> ('t \<Rightarrow> 't \<Rightarrow> 't) \<Rightarrow> 't FactorVAE \<Rightarrow> 'q \<Rightarrow> bool \<Rightarrow> bool option \<Rightarrow> 't" where
  "total_correlation discriminator_total_correlation tf_multiply self qZ_X scaled_by_gamma
      training =
     (let tc = discriminator_total_correlation qZ_X training
      in if scaled_by_gamma then tf_multiply (gamma self) tc else tc)"

definition elbo ::
  "('x \<Rightarrow> 'p \<Rightarrow> 'q \<Rightarrow> bool \<Rightarrow> bool \<Rightarrow> nat list \<Rightarrow> 'l \<times> (string \<rightharpoonup> 't)) \<Rightarrow>
   ('q \<Rightarrow> bool option \<Rightarrow> 't) \<Rightarrow> ('t \<Rightarrow> 't \<Rightarrow> 't) \<Rightarrow> 't FactorVAE \<Rightarrow>
   'x \<Rightarrow> 'p \<Rightarrow> 'q \<Rightarrow> bool \<Rightarrow> bool \<Rightarrow> nat list \<Rightarrow> 'm \<Rightarrow> bool option \<Rightarrow> 'l \<times> (string \<rightharpoonup> 't)" where
  "elbo super_elbo discriminator_total_correlation tf_multiply self X pX_Z qZ_X analytic reverse
      sample_shape mask_arg training =
     (case super_elbo X pX_Z qZ_X analytic reverse sample_shape of
        (llk, divergence) \<Rightarrow>
          (llk, divergence(''tc'' \<mapsto>
             total_correlation discriminator_total_correlation tf_multiply self qZ_X True
               training)))"

text \<open>
  The inputs of a step: one tensor, or the list of tensors of a nested structure.
\<close>

datatype 'a nest = Tensor "'a tensor" | Nested "'a nest list"

fun nest_flatten :: "'a nest \<Rightarrow> 'a tensor list" where
  "nest_flatten (Tensor t) = [t]"
| "nest_flatten (Nested ns) = concat (map nest_flatten ns)"

text \<open>\<^verbatim>\<open>[tf.split(x, 2, axis=0) for x in ...]\<close>: the first split that fails raises.\<close>

fun split_all :: "'a tensor list \<Rightarrow> py_error + ('a tensor \<times> 'a tensor) list" where
  "split_all [] = Inr []"
| "split_all (x # xs) =
     (case tf_split2 x of
        Inl e \<Rightarrow> Inl e
      | Inr halves \<Rightarrow> (case split_all xs of Inl e \<Rightarrow> Inl e | Inr rest \<Rightarrow> Inr (halves # rest)))"

text \<open>
  The two kinds of step, with the arguments their constructors receive
  (\<^verbatim>\<open>vae=self\<close> is the model itself; the methods of a step take it as an argument).
  The inputs of a \<^verbatim>\<open>FactorStep\<close> are the list of a minibatch and a posterior.
\<close>

record ('a, 'm, 'k) TrainStep =
  ts_inputs :: "'a nest"
  ts_training :: "bool option"
  ts_mask :: 'm
  ts_sample_shape :: "nat list"
  ts_iw :: bool
  ts_elbo_kw :: 'k
  ts_parameters :: "variable list"

record ('a, 'm, 'q) FactorStep =
  fs_inputs :: "'a nest \<times> 'q"
  fs_training :: "bool option"
  fs_mask :: 'm
  fs_sample_shape :: "nat list"
  fs_parameters :: "variable list"

datatype ('a, 'm, 'k, 'q) yielded =
    First "('a, 'm, 'k) TrainStep"
  | Second "('a, 'm, 'q) FactorStep"

text \<open>
  Floating-point addition on whole numbers.  A floating-point type with \<open>p\<close>
  significant bits (24 for \<^verbatim>\<open>float32\<close>, the default type of a Keras model, 53 for
  \<^verbatim>\<open>float64\<close>) holds a whole number of at most \<open>p\<close> bits exactly; a longer one is
  rounded to the nearest number with \<open>p\<close> significant bits, a tie to the one whose last
  kept bit is 0.  \<^verbatim>\<open>assign_add(1.)\<close> stores the rounded sum.
\<close>

fun bit_length :: "nat \<Rightarrow> nat" where
  "bit_length n = (if n = 0 then 0 else Suc (bit_length (n div 2)))"

declare bit_length.simps [simp del]

definition round_to_bits :: "nat \<Rightarrow> nat \<Rightarrow> nat" where
  "round_to_bits p m =
     (if bit_length m \<le> p then m
      else let k = bit_length m - p;
               q = m div 2 ^ k;
               r = m mod 2 ^ k;
               half = 2 ^ (k - 1)
           in if r < half \<or> (r = half \<and> even q) then q * 2 ^ k else (q + 1) * 2 ^ k)"

definition assign_add_1 :: "nat \<Rightarrow> nat \<Rightarrow> nat" where
  "assign_add_1 p counter = round_to_bits p (counter + 1)"

text \<open>
  How the generator is run: eagerly, or while a \<^verbatim>\<open>tf.function\<close> is traced with the
  shape of the inputs known.  Traced, a \<^verbatim>\<open>tf.split\<close> that fails raises during the
  tracing, when no operation of the graph, \<^verbatim>\<open>assign_add\<close> among them, has run.
\<close>

datatype execution = Eager | Traced

text \<open>
  A run of the generator \<^verbatim>\<open>train_steps\<close> to its end: the model afterwards, the steps
  yielded in order, and the exception that ended the run, if one did.
\<close>

record ('t, 'a, 'm, 'k, 'q) generator_run =
  model :: "'t FactorVAE"
  steps :: "('a, 'm, 'k, 'q) yielded list"
  raised :: "py_error option"

text \<open>
  \<^verbatim>\<open>FactorVAE.train_steps\<close>.  \<open>p\<close> is the number of significant bits of the counter's
  type.  Between the two yields the consumer holds the first step; \<open>qZ_X\<close> is the
  attribute \<^verbatim>\<open>step1.qZ_X\<close> as the generator finds it when it is resumed
  (\<^verbatim>\<open>TrainStep\<close> is not among the source files), \<open>None\<close> when the step has no such
  attribute then.
\<close>

definition train_steps ::
  "nat \<Rightarrow> execution \<Rightarrow> 't FactorVAE \<Rightarrow> 'a nest \<Rightarrow> bool option \<Rightarrow> 'm \<Rightarrow> nat list \<Rightarrow> bool \<Rightarrow> 'k \<Rightarrow>
   'q option \<Rightarrow> ('t, 'a, 'm, 'k, 'q) generator_run" where
  "train_steps p mode self inputs training mask_arg sample_shape iw elbo_kw qZ_X =
     (let self1 = self\<lparr>step := assign_add_1 p (step self)\<rparr> in
      case (case inputs of
              Tensor t \<Rightarrow>
                (case tf_split2 t of
                   Inl e \<Rightarrow> Inl e
                 | Inr (x1, x2) \<Rightarrow> Inr (Tensor x1, Tensor x2))
            | Nested ns \<Rightarrow>
                (case split_all (nest_flatten inputs) of
                   Inl e \<Rightarrow> Inl e
                 | Inr halves \<Rightarrow>
                     Inr (Nested (map (\<lambda>i. Tensor (fst i)) halves),
                          Nested (map (\<lambda>i. Tensor (snd i)) halves)))) of
        Inl e \<Rightarrow>
          \<lparr>model = (case mode of Eager \<Rightarrow> self1 | Traced \<Rightarrow> self), steps = [],
           raised = Some e\<rparr>
      | Inr (x1, x2) \<Rightarrow>
          let step1 = \<lparr>ts_inputs = x1, ts_training = training, ts_mask = mask_arg,
                       ts_sample_shape = sample_shape, ts_iw = iw, ts_elbo_kw = elbo_kw,
                       ts_parameters = vae_params self1\<rparr>
          in (case qZ_X of
                None \<Rightarrow> \<lparr>model = self1, steps = [First step1],
                           raised = Some (AttributeError ''qZ_X'')\<rparr>
              | Some q \<Rightarrow>
                  (let step2 = \<lparr>fs_inputs = (x2, q), fs_training = training,
                                fs_mask = mask_arg, fs_sample_shape = sample_shape,
                                fs_parameters = disc_params self1\<rparr>
                   in \<lparr>model = self1, steps = [First step1, Second step2],
                       raised = None\<rparr>)))"

text \<open>
  \<^verbatim>\<open>FactorStep.__call__\<close>.  Parameters: \<^verbatim>\<open>encode\<close> and \<^verbatim>\<open>dtc_loss\<close> of the model, which
  may raise, and the values of the names the module and the builtins bind.  The body
  assigns \<^verbatim>\<open>inputs\<close>, \<^verbatim>\<open>qZ_X\<close>, \<^verbatim>\<open>qZ_Xprime\<close> and \<^verbatim>\<open>dtc_loss\<close> and has the parameter
  \<^verbatim>\<open>self\<close>; the name \<^verbatim>\<open>training\<close> that it reads in the call of \<^verbatim>\<open>dtc_loss\<close> is none
  of these, so it is looked up in the module and the builtins, after the two
  positional arguments have been evaluated.
\<close>

definition FactorStep_call ::
  "('a nest \<Rightarrow> bool option \<Rightarrow> 'm \<Rightarrow> nat list \<Rightarrow> py_error + 'q) \<Rightarrow>
   ('q \<Rightarrow> 'q \<Rightarrow> 'v \<Rightarrow> py_error + 't) \<Rightarrow> (string \<Rightarrow> 'v) \<Rightarrow> ('a, 'm, 'q) FactorStep \<Rightarrow>
   py_error + ('t \<times> (string \<times> 't) list)" where
  "FactorStep_call encode dtc_loss value_of self =
     (case fs_inputs self of
        (inputs, qZ_X) \<Rightarrow>
          (case encode inputs (fs_training self) (fs_mask self) (fs_sample_shape self) of
             Inl e \<Rightarrow> Inl e
           | Inr qZ_Xprime \<Rightarrow>
               (case load_global value_of factor_vae_module_names builtin_names ''training'' of
                  Inl e \<Rightarrow> Inl e
                | Inr training \<Rightarrow>
                    (case dtc_loss qZ_X qZ_Xprime training of
                       Inl e \<Rightarrow> Inl e
                     | Inr loss \<Rightarrow> Inr (loss, [(''dtc'', loss)])))))"

section \<open>odin/ml/fast\_tsne.py\<close>

text \<open>
  A positional argument of \<^verbatim>\<open>fast_tsne\<close>: a numpy array, given by its rows, a tuple or
  list of arguments, or anything else.
\<close>

datatype 'r arg = NDArray "'r list" | Sequence "'r arg list" | Other

text \<open>
  The keyword arguments that \<^verbatim>\<open>dict(locals())\<close> keeps once \<^verbatim>\<open>X\<close>, \<^verbatim>\<open>combined\<close>,
  \<^verbatim>\<open>return_model\<close>, \<^verbatim>\<open>n_samples\<close> and \<^verbatim>\<open>force_sklearn\<close> are gone, in the order of the
  signature.  \<open>'v\<close> is the type of Python values.
\<close>

record 'v tsne_arguments =
  arg_n_components :: 'v
  arg_perplexity :: 'v
  arg_early_exaggeration :: 'v
  arg_learning_rate :: 'v
  arg_n_iter :: 'v
  arg_n_iter_without_progress :: 'v
  arg_min_grad_norm :: 'v
  arg_metric :: 'v
  arg_init :: 'v
  arg_verbose :: 'v
  arg_random_state :: 'v
  arg_method :: 'v
  arg_angle :: 'v
  arg_n_jobs :: 'v

definition locals_kwargs :: "'v tsne_arguments \<Rightarrow> (string \<times> 'v) list" where
  "locals_kwargs a =
     [(''n_components'', arg_n_components a),
      (''perplexity'', arg_perplexity a),
      (''early_exaggeration'', arg_early_exaggeration a),
      (''learning_rate'', arg_learning_rate a),
      (''n_iter'', arg_n_iter a),
      (''n_iter_without_progress'', arg_n_iter_without_progress a),
      (''min_grad_norm'', arg_min_grad_norm a),
      (''metric'', arg_metric a),
      (''init'', arg_init a),
      (''verbose'', arg_verbose a),
      (''random_state'', arg_random_state a),
      (''method'', arg_method a),
      (''angle'', arg_angle a),
      (''n_jobs'', arg_n_jobs a)]"

datatype tsne_version = Cuda | Multicore | Sklearn

definition version_name :: "tsne_version \<Rightarrow> string" where
  "version_name v = (case v of Cuda \<Rightarrow> ''cuda'' | Multicore \<Rightarrow> ''multicore'' | Sklearn \<Rightarrow> ''sklearn'')"

text \<open>
  What the function takes from numpy, from the t-SNE packages and from the rest of
  odin, none of it among the source files: whether \<^verbatim>\<open>random_state\<close> is a
  \<^verbatim>\<open>RandomState\<close> (then its generator) and the generator a seed makes;
  \<^verbatim>\<open>permutation\<close>, which also advances the generator; \<^verbatim>\<open>md5_checksum\<close>; \<^verbatim>\<open>repr\<close> of
  a value; which of the two accelerated packages can be imported; \<^verbatim>\<open>TSNE(**kwargs)\<close>
  followed by \<^verbatim>\<open>fit_transform\<close>, giving the embedding, one row for each row of the
  data, and the model; and the order in which \<^verbatim>\<open>MPI\<close> hands back the jobs it was
  given.
\<close>

record ('r, 'e, 'v, 'g, 'mdl) environment =
  as_RandomState :: "'v \<Rightarrow> 'g option"
  RandomState_seed :: "'v \<Rightarrow> 'g"
  rand_permutation :: "'g \<Rightarrow> nat \<Rightarrow> nat list \<times> 'g"
  md5_checksum :: "'r list \<Rightarrow> 'v"
  py_repr :: "'v \<Rightarrow> string"
  cuml_importable :: bool
  MulticoreTSNE_importable :: bool
  TSNE_fit_transform :: "tsne_version \<Rightarrow> (string \<times> 'v) list \<Rightarrow> 'r list \<Rightarrow> 'e list \<times> 'mdl"
  MPI_order :: "(nat \<times> 'v \<times> 'r list) list \<Rightarrow> (nat \<times> 'v \<times> 'r list) list"

text \<open>\<^verbatim>\<open>str\<close> of a list of pairs of a string and a value.\<close>

definition str_items :: "('v \<Rightarrow> string) \<Rightarrow> (string \<times> 'v) list \<Rightarrow> string" where
  "str_items repr_of items =
     ''['' @ join '', '' (map (\<lambda>(k, v). ''('' @ [CHR 0x27] @ k @ [CHR 0x27] @ '', '' @
                                          repr_of v @ '')'') items) @ '']''"

text \<open>
  \<^verbatim>\<open>_create_key\<close>.  A dictionary is an association list in insertion order:
  \<^verbatim>\<open>del\<close> raises \<^verbatim>\<open>KeyError\<close> on a missing key, an assignment replaces the value of a
  key or appends the key.
\<close>

definition create_key ::
  "('v \<Rightarrow> string) \<Rightarrow> string \<Rightarrow> (string \<times> 'v) list \<Rightarrow> 'v \<Rightarrow> py_error + string" where
  "create_key repr_of framework kwargs md5 =
     (case map_of kwargs ''verbose'' of
        None \<Rightarrow> Inl (KeyError ''verbose'')
      | Some _ \<Rightarrow>
          let key = AList.update ''md5'' md5 (AList.delete ''verbose'' kwargs)
          in Inr (framework @ str_items repr_of (sort_key fst key)))"

text \<open>
  The head of \<^verbatim>\<open>fast_tsne\<close>: at least one argument; a tuple or list in the first
  place stands for the arguments; all of them must be arrays.
\<close>

fun the_rows :: "'r arg \<Rightarrow> 'r list" where
  "the_rows (NDArray x) = x"
| "the_rows _ = []"

fun is_ndarray :: "'r arg \<Rightarrow> bool" where
  "is_ndarray (NDArray x) = True"
| "is_ndarray _ = False"

definition check_inputs :: "'r arg list \<Rightarrow> py_error + 'r list list" where
  "check_inputs X =
     (case X of
        [] \<Rightarrow> Inl (AssertionError ''No input is given!'')
      | x0 # _ \<Rightarrow>
          let X1 = (case x0 of Sequence xs \<Rightarrow> xs | _ \<Rightarrow> X)
          in if \<not> list_all is_ndarray X1
             then Inl (ValueError ''`X` can only be list of numpy.ndarray or numpy.ndarray'')
             else Inr (map the_rows X1))"

text \<open>\<^verbatim>\<open>x[ids]\<close>: the rows at the indices, \<^verbatim>\<open>IndexError\<close> when one is out of range.\<close>

definition take_rows :: "'r list \<Rightarrow> nat list \<Rightarrow> py_error + 'r list" where
  "take_rows x ids =
     (if list_all (\<lambda>i. i < length x) ids then Inr (map (\<lambda>i. x ! i) ids)
      else Inl (IndexError ''index is out of bounds''))"

text \<open>The loop of the downsampling; the generator is threaded through the arrays.\<close>

fun downsampling ::
  "('g \<Rightarrow> nat \<Rightarrow> nat list \<times> 'g) \<Rightarrow> nat \<Rightarrow> 'g \<Rightarrow> 'r list list \<Rightarrow> py_error + 'r list list" where
  "downsampling perm n_samples rand [] = Inr []"
| "downsampling perm n_samples rand (x # X) =
     (if length x > n_samples
      then (case perm rand (length x) of
              (ids, rand') \<Rightarrow>
                (case take_rows x (take n_samples ids) of
                   Inl e \<Rightarrow> Inl e
                 | Inr x' \<Rightarrow>
                     (case downsampling perm n_samples rand' X of
                        Inl e \<Rightarrow> Inl e
                      | Inr new_X \<Rightarrow> Inr (x' # new_X))))
      else (case downsampling perm n_samples rand X of
              Inl e \<Rightarrow> Inl e
            | Inr new_X \<Rightarrow> Inr (x # new_X)))"

text \<open>
  The arrays that go on to the embedding: the head of the function and the
  downsampling.
\<close>

definition embedded_arrays ::
  "('r, 'e, 'v, 'g, 'mdl) environment \<Rightarrow> 'r arg list \<Rightarrow> int option \<Rightarrow> 'v \<Rightarrow>
   py_error + 'r list list" where
  "embedded_arrays env X n_samples random_state =
     (case check_inputs X of
        Inl e \<Rightarrow> Inl e
      | Inr X1 \<Rightarrow>
          (case n_samples of
             None \<Rightarrow> Inr X1
           | Some n \<Rightarrow>
               if \<not> n > 0 then Inl (AssertionError [])
               else let rand = (case as_RandomState env random_state of
                                  Some g \<Rightarrow> g
                                | None \<Rightarrow> RandomState_seed env random_state)
                    in downsampling (rand_permutation env) (nat n) rand X1))"

text \<open>The import of the t-SNE class and the keyword arguments it will receive.\<close>

definition import_TSNE :: "('r, 'e, 'v, 'g, 'mdl) environment \<Rightarrow> bool \<Rightarrow> tsne_version" where
  "import_TSNE env force_sklearn =
     (if \<not> force_sklearn
      then (if cuml_importable env then Cuda
            else if MulticoreTSNE_importable env then Multicore
            else Sklearn)
      else Sklearn)"

definition modify_kwargs :: "tsne_version \<Rightarrow> (string \<times> 'v) list \<Rightarrow> (string \<times> 'v) list" where
  "modify_kwargs v kwargs =
     (case v of
        Cuda \<Rightarrow> AList.delete ''n_jobs'' kwargs
      | Multicore \<Rightarrow> kwargs
      | Sklearn \<Rightarrow> AList.delete ''n_jobs'' kwargs)"

text \<open>
  Getting the cached values.  The state of the loop: \<^verbatim>\<open>results\<close> and \<^verbatim>\<open>X_new\<close>.
  The cache \<^verbatim>\<open>_cached_values\<close> is a map from keys to embeddings.
\<close>

type_synonym ('r, 'e, 'v) lookup_state = "(nat \<times> 'e list) list \<times> (nat \<times> 'v \<times> 'r list) list"

definition lookup_one ::
  "('r, 'e, 'v, 'g, 'mdl) environment \<Rightarrow> tsne_version \<Rightarrow> (string \<times> 'v) list \<Rightarrow>
   (string \<rightharpoonup> 'e list) \<Rightarrow> nat \<Rightarrow> 'r list \<Rightarrow> ('r, 'e, 'v) lookup_state \<Rightarrow>
   py_error + ('r, 'e, 'v) lookup_state" where
  "lookup_one env v kwargs cache i x st =
     (let md5 = md5_checksum env x in
      case create_key (py_repr env) (version_name v) kwargs md5 of
        Inl e \<Rightarrow> Inl e
      | Inr key \<Rightarrow>
          (case cache key of
             Some cached \<Rightarrow> Inr (fst st @ [(i, cached)], snd st)
           | None \<Rightarrow> Inr (fst st, snd st @ [(i, md5, x)])))"

fun lookup_each ::
  "('r, 'e, 'v, 'g, 'mdl) environment \<Rightarrow> tsne_version \<Rightarrow> (string \<times> 'v) list \<Rightarrow>
   (string \<rightharpoonup> 'e list) \<Rightarrow> (nat \<times> 'r list) list \<Rightarrow> ('r, 'e, 'v) lookup_state \<Rightarrow>
   py_error + ('r, 'e, 'v) lookup_state" where
  "lookup_each env v kwargs cache [] st = Inr st"
| "lookup_each env v kwargs cache ((i, x) # rest) st =
     (case lookup_one env v kwargs cache i x st of
        Inl e \<Rightarrow> Inl e
      | Inr st' \<Rightarrow> lookup_each env v kwargs cache rest st')"

definition getting_cached_values ::
  "('r, 'e, 'v, 'g, 'mdl) environment \<Rightarrow> tsne_version \<Rightarrow> (string \<times> 'v) list \<Rightarrow> bool \<Rightarrow>
   'r list list \<Rightarrow> (string \<rightharpoonup> 'e list) \<Rightarrow>
   py_error + (('r, 'e, 'v) lookup_state \<times> nat list)" where
  "getting_cached_values env v kwargs combined X cache =
     (if combined
      then (case X of
              [] \<Rightarrow> Inl (IndexError ''list index out of range'')
            | x0 # _ \<Rightarrow>
                let X_size = map length X;
                    x = (if length X > 1 then concat X else x0)
                in (case lookup_one env v kwargs cache 0 x ([], []) of
                      Inl e \<Rightarrow> Inl e
                    | Inr st \<Rightarrow> Inr (st, X_size)))
      else (case lookup_each env v kwargs cache (enumerate 0 X) ([], []) of
              Inl e \<Rightarrow> Inl e
            | Inr st \<Rightarrow> Inr (st, [])))"

text \<open>
  Performing t-SNE.  The local variable \<^verbatim>\<open>model\<close> is unbound until the first branch
  has run its loop body once, or the second branch has assigned the empty list.
\<close>

datatype 'mdl model_variable = Unbound | Model "'mdl option" | Models "'mdl option list"

definition apply_tsne ::
  "('r, 'e, 'v, 'g, 'mdl) environment \<Rightarrow> tsne_version \<Rightarrow> (string \<times> 'v) list \<Rightarrow> bool \<Rightarrow>
   nat \<times> 'v \<times> 'r list \<Rightarrow> nat \<times> 'v \<times> 'e list \<times> 'mdl option" where
  "apply_tsne env v kwargs return_model j =
     (case j of
        (idx, md5, x) \<Rightarrow>
          (case TSNE_fit_transform env v kwargs x of
             (y, tsne) \<Rightarrow> (idx, md5, y, if return_model then Some tsne else None)))"

type_synonym ('e, 'mdl) perform_state =
  "(nat \<times> 'e list) list \<times> (string \<rightharpoonup> 'e list) \<times> 'mdl model_variable"

fun perform_each ::
  "('r, 'e, 'v, 'g, 'mdl) environment \<Rightarrow> tsne_version \<Rightarrow> (string \<times> 'v) list \<Rightarrow> bool \<Rightarrow> bool \<Rightarrow>
   (nat \<times> 'v \<times> 'r list) list \<Rightarrow> ('e, 'mdl) perform_state \<Rightarrow>
   (string \<rightharpoonup> 'e list) \<times> (py_error + ('e, 'mdl) perform_state)" where
  "perform_each env v kwargs return_model by_mpi [] st = (fst (snd st), Inr st)"
| "perform_each env v kwargs return_model by_mpi (j # jobs) (results, cache, model_var) =
     (case apply_tsne env v kwargs return_model j of
        (idx, md5, y, m) \<Rightarrow>
          (case create_key (py_repr env) (version_name v) kwargs md5 of
             Inl e \<Rightarrow> (cache, Inl e)
           | Inr key \<Rightarrow>
               perform_each env v kwargs return_model by_mpi jobs
                 (results @ [(idx, y)], cache(key \<mapsto> y),
                  if by_mpi
                  then (case model_var of Models ms \<Rightarrow> Models (ms @ [m]) | other \<Rightarrow> other)
                  else Model m)))"

definition perform_tsne ::
  "('r, 'e, 'v, 'g, 'mdl) environment \<Rightarrow> tsne_version \<Rightarrow> (string \<times> 'v) list \<Rightarrow> bool \<Rightarrow>
   (nat \<times> 'v \<times> 'r list) list \<Rightarrow> (nat \<times> 'e list) list \<Rightarrow> (string \<rightharpoonup> 'e list) \<Rightarrow>
   (string \<rightharpoonup> 'e list) \<times> (py_error + ('e, 'mdl) perform_state)" where
  "perform_tsne env v kwargs return_model X_new results cache =
     (if length X_new = 1 \<or> v = Cuda \<or> v = Multicore
      then perform_each env v kwargs return_model False X_new (results, cache, Unbound)
      else perform_each env v kwargs return_model True (MPI_order env X_new)
             (results, cache, Models []))"

text \<open>Return and clean.\<close>

fun cumsum :: "nat \<Rightarrow> nat list \<Rightarrow> nat list" where
  "cumsum acc [] = []"
| "cumsum acc (n # ns) = (acc + n) # cumsum (acc + n) ns"

definition slice :: "'e list \<Rightarrow> nat \<Rightarrow> nat \<Rightarrow> 'e list" where
  "slice xs s e = take (e - s) (drop s xs)"

datatype 'e embeddings = One "'e list" | Several "'e list list"

definition return_and_clean ::
  "bool \<Rightarrow> nat list \<Rightarrow> (nat \<times> 'e list) list \<Rightarrow> bool \<Rightarrow> 'mdl model_variable \<Rightarrow>
   py_error + ('e embeddings \<times> 'mdl model_variable option)" where
  "return_and_clean combined X_size results return_model model_var =
     (case (if combined \<and> length X_size > 1
            then (case results of
                    [] \<Rightarrow> Inl (IndexError ''list index out of range'')
                  | r0 # _ \<Rightarrow>
                      let indices = 0 # cumsum 0 X_size
                      in Inr (map (\<lambda>(s, e). slice (snd r0) s e) (zip indices (tl indices))))
            else Inr (map snd (sort_key fst results))) of
        Inl e \<Rightarrow> Inl e
      | Inr rs \<Rightarrow>
          let out = (case rs of [r] \<Rightarrow> One r | _ \<Rightarrow> Several rs)
          in if return_model
             then (case model_var of
                     Unbound \<Rightarrow> Inl (UnboundLocalError ''model'')
                   | m \<Rightarrow> Inr (out, Some m))
             else Inr (out, None))"

text \<open>
  \<^verbatim>\<open>fast_tsne\<close>: the cache afterwards, and what the call returns or raises.
\<close>

definition fast_tsne ::
  "('r, 'e, 'v, 'g, 'mdl) environment \<Rightarrow> 'r arg list \<Rightarrow> 'v tsne_arguments \<Rightarrow> int option \<Rightarrow>
   bool \<Rightarrow> bool \<Rightarrow> bool \<Rightarrow> (string \<rightharpoonup> 'e list) \<Rightarrow>
   (string \<rightharpoonup> 'e list) \<times> (py_error + ('e embeddings \<times> 'mdl model_variable option))" where
  "fast_tsne env X args n_samples combined return_model force_sklearn cache =
     (case embedded_arrays env X n_samples (arg_random_state args) of
        Inl e \<Rightarrow> (cache, Inl e)
      | Inr X1 \<Rightarrow>
          let v = import_TSNE env force_sklearn;
              kwargs = modify_kwargs v (locals_kwargs args)
          in (case getting_cached_values env v kwargs combined X1 cache of
                Inl e \<Rightarrow> (cache, Inl e)
              | Inr ((results, X_new), X_size) \<Rightarrow>
                  (case perform_tsne env v kwargs return_model X_new results cache of
                     (cache', Inl e) \<Rightarrow> (cache', Inl e)
                   | (cache', Inr (results', _, model_var)) \<Rightarrow>
                       (cache',
                        return_and_clean combined X_size results' return_model model_var))))"

text \<open>
  A run used below: an environment in which \<^verbatim>\<open>MulticoreTSNE\<close> can be imported and
  \<^verbatim>\<open>cuml\<close> cannot, with values shown by their \<^verbatim>\<open>repr\<close>, and the default keyword
  arguments of \<^verbatim>\<open>fast_tsne\<close>.
\<close>

definition multicore_environment :: "(nat, nat, string, unit, unit) environment" where
  "multicore_environment =
     \<lparr>as_RandomState = (\<lambda>s. None), RandomState_seed = (\<lambda>s. ()),
      rand_permutation = (\<lambda>g n. ([0..<n], g)),
      md5_checksum = (\<lambda>x. ''md5''), py_repr = (\<lambda>v. v),
      cuml_importable = False, MulticoreTSNE_importable = True,
      TSNE_fit_transform = (\<lambda>v kw x. (x, ())), MPI_order = (\<lambda>jobs. jobs)\<rparr>"

definition default_arguments :: "string tsne_arguments" where
  "default_arguments =
     \<lparr>arg_n_components = ''2'', arg_perplexity = ''30.0'', arg_early_exaggeration = ''8.0'',
      arg_learning_rate = ''200.0'', arg_n_iter = ''1000'',
      arg_n_iter_without_progress = ''300'', arg_min_grad_norm = ''1e-07'',
      arg_metric = ''euclidean'', arg_init = ''random'', arg_verbose = ''0'',
      arg_random_state = ''1234'', arg_method = ''barnes_hut'', arg_angle = ''0.5'',
      arg_n_jobs = ''4''\<rparr>"

section \<open>Properties\<close>

lemma dist_mapping_entries:
  "dist_mapping =
     [(''bern'', (BernoulliLayer, Bernoulli)),
      (''bernoulli'', (BernoulliLayer, Bernoulli)),
      (''zibernoulli'', (ZeroInflatedBernoulliLayer, Bernoulli)),
      (''zeroinflatedbernoulli'', (ZeroInflatedBernoulliLayer, Bernoulli)),
      (''normal'', (NormalLayer, Normal)),
      (''gaussian'', (NormalLayer, Normal)),
      (''lognormal'', (LogNormalLayer, LogNormal)),
      (''nb'', (NegativeBinomialLayer, NegativeBinomial)),
      (''negativebinomial'', (NegativeBinomialLayer, NegativeBinomial)),
      (''zinb'', (ZeroInflatedNegativeBinomialLayer, NegativeBinomial)),
      (''zinegativebinomial'', (ZeroInflatedNegativeBinomialLayer, NegativeBinomial)),
      (''zeroinflatednegativebinomial'', (ZeroInflatedNegativeBinomialLayer, NegativeBinomial)),
      (''pois'', (PoissonLayer, Poisson)),
      (''poisson'', (PoissonLayer, Poisson)),
      (''zipois'', (ZeroInflatedPoissonLayer, Poisson)),
      (''zipoisson'', (ZeroInflatedPoissonLayer, Poisson)),
      (''zeroinflatedpoisson'', (ZeroInflatedPoissonLayer, Poisson)),
      (''dirichlet'', (DirichletLayer, Dirichlet)),
      (''onehot'', (OneHotCategoricalLayer, OneHotCategorical))]"
  by (simp add: dist_mapping_def multikeysdict_def)

lemma dist_mapping_keys:
  "map fst dist_mapping =
     [''bern'', ''bernoulli'', ''zibernoulli'', ''zeroinflatedbernoulli'', ''normal'',
      ''gaussian'', ''lognormal'', ''nb'', ''negativebinomial'', ''zinb'',
      ''zinegativebinomial'', ''zeroinflatednegativebinomial'', ''pois'', ''poisson'',
      ''zipois'', ''zipoisson'', ''zeroinflatedpoisson'', ''dirichlet'', ''onehot'']"
  by (simp add: dist_mapping_entries)

text \<open>
  C5.  \<^verbatim>\<open>parse_distribution\<close> lowercases its argument.  When the lowercased string is one
  of the registered aliases, the result is the pair of distribution-layer class and
  distribution class of that alias; for every other string the call raises
  \<^verbatim>\<open>ValueError\<close>, whose message names the (lowercased) alias and lists every available
  alias, separated by a comma and a space.
\<close>

theorem parse_distribution_registered_or_ValueError:
  "parse_distribution alias =
     (let a = lower alias in
      if a \<in> {''bern'', ''bernoulli''} then Inr (BernoulliLayer, Bernoulli)
      else if a \<in> {''zibernoulli'', ''zeroinflatedbernoulli''}
        then Inr (ZeroInflatedBernoulliLayer, Bernoulli)
      else if a \<in> {''normal'', ''gaussian''} then Inr (NormalLayer, Normal)
      else if a = ''lognormal'' then Inr (LogNormalLayer, LogNormal)
      else if a \<in> {''nb'', ''negativebinomial''}
        then Inr (NegativeBinomialLayer, NegativeBinomial)
      else if a \<in> {''zinb'', ''zinegativebinomial'', ''zeroinflatednegativebinomial''}
        then Inr (ZeroInflatedNegativeBinomialLayer, NegativeBinomial)
      else if a \<in> {''pois'', ''poisson''} then Inr (PoissonLayer, Poisson)
      else if a \<in> {''zipois'', ''zipoisson'', ''zeroinflatedpoisson''}
        then Inr (ZeroInflatedPoissonLayer, Poisson)
      else if a = ''dirichlet'' then Inr (DirichletLayer, Dirichlet)
      else if a = ''onehot'' then Inr (OneHotCategoricalLayer, OneHotCategorical)
      else Inl (ValueError
        (''Cannot find distribution with alias: '' @ [CHR 0x27] @ a @ [CHR 0x27] @
         '', all available distributions: '' @
         ''bern, bernoulli, zibernoulli, zeroinflatedbernoulli, normal, gaussian, '' @
         ''lognormal, nb, negativebinomial, zinb, zinegativebinomial, '' @
         ''zeroinflatednegativebinomial, pois, poisson, zipois, zipoisson, '' @
         ''zeroinflatedpoisson, dirichlet, onehot'')))"
proof (cases "lower alias \<in> set (map fst dist_mapping)")
  case True
  then show ?thesis
    unfolding dist_mapping_keys
    by (auto simp: parse_distribution_def dist_mapping_entries)
next
  case False
  then have none: "map_of dist_mapping (lower alias) = None"
    by (simp only: map_of_eq_None_iff set_map not_False_eq_True)
  from False show ?thesis
    unfolding parse_distribution_def Let_def none dist_mapping_keys unknown_alias_message_def
    by simp
qed

subsection \<open>The dense layer\<close>

lemma concat_chunks: "length xs = s * n \<Longrightarrow> concat (chunks s n xs) = xs"
  by (induction s arbitrary: xs) auto

lemma length_chunks_elem: "length xs = s * n \<Longrightarrow> c \<in> set (chunks s n xs) \<Longrightarrow> length c = n"
proof (induction s arbitrary: xs)
  case 0
  then show ?case by simp
next
  case (Suc s)
  have rest: "length (drop n xs) = s * n" using Suc.prems(1) by simp
  from Suc.prems(2) have "c = take n xs \<or> c \<in> set (chunks s n (drop n xs))" by simp
  then show ?case
  proof
    assume "c = take n xs"
    then show ?thesis using Suc.prems(1) by simp
  next
    assume "c \<in> set (chunks s n (drop n xs))"
    then show ?thesis using Suc.IH [OF rest] by simp
  qed
qed

lemma tile_elems_ones:
  "length xs = prod_list ss \<Longrightarrow> tile_elems ss (replicate k (Suc 0)) xs = xs"
proof (induction ss arbitrary: k xs)
  case Nil
  then show ?case by simp
next
  case (Cons s ss)
  show ?case
  proof (cases k)
    case 0
    then show ?thesis by simp
  next
    case (Suc k')
    have len: "length xs = s * prod_list ss" using Cons.prems by simp
    have "map (tile_elems ss (replicate k' (Suc 0))) (chunks s (prod_list ss) xs)
            = chunks s (prod_list ss) xs"
      by (rule map_idI) (simp add: Cons.IH length_chunks_elem [OF len])
    then show ?thesis using Suc by (simp add: concat_chunks [OF len])
  qed
qed

lemma map2_mult_ones: "map2 (*) (replicate (length ss) (Suc 0)) ss = ss"
  by (induction ss) auto

lemma tf_tile_expand_dims0:
  assumes "well_formed k"
  shows "tf_tile (expand_dims0 k) (n # replicate (ndims (expand_dims0 k) - 1) 1)
           = Inr \<lparr>shape = n # shape k, elems = concat (replicate n (elems k))\<rparr>"
proof -
  have len: "length (elems k) = prod_list (shape k)"
    using assms by (simp add: well_formed_def)
  have "tile_elems (1 # shape k) (n # replicate (length (shape k)) 1) (elems k)
          = concat (replicate n (elems k))"
    by (simp add: len tile_elems_ones)
  then show ?thesis
    by (simp add: tf_tile_def expand_dims0_def ndims_def map2_mult_ones)
qed


lemma lower_Normal: "lower ''Normal'' = ''normal''"
  by code_simp

lemma parse_distribution_Normal: "parse_distribution ''Normal'' = Inr (NormalLayer, Normal)"
  by (simp add: parse_distribution_def lower_Normal dist_mapping_entries)


text \<open>
  C2.  \<^verbatim>\<open>DenseDistribution.kl_divergence\<close>, once the layer has been called (a
  posterior exists) and a prior is there (handed in, or the stored one).  With
  \<^verbatim>\<open>analytic=True\<close> the helper is asked for the closed form; its result, a well-formed
  tensor, gets a leading axis, of size 1, or of size \<^verbatim>\<open>sample_shape\<close> holding that many
  identical copies when \<^verbatim>\<open>sample_shape\<close> is a number greater than 1.  With
  \<^verbatim>\<open>analytic=False\<close> the result is what the helper returns for \<^verbatim>\<open>q_sample\<close> equal to
  \<^verbatim>\<open>sample_shape\<close>, with no axis added and nothing tiled.
\<close>

theorem kl_divergence_analytic_expands_and_tiles:
  assumes "posterior self = Some q"
    and "(case prior0 of None \<Rightarrow> prior self | Some p' \<Rightarrow> Some p') = Some p"
  shows "(kl q p True reverse sample_shape = Inr k \<and> well_formed k \<longrightarrow>
            kl_divergence kl self prior0 True sample_shape reverse =
              Inr \<lparr>shape = copies sample_shape # shape k,
                   elems = concat (replicate (copies sample_shape) (elems k))\<rparr>) \<and>
         kl_divergence kl self prior0 False sample_shape reverse =
           kl q p False reverse sample_shape"
proof (intro conjI impI)
  assume a: "kl q p True reverse sample_shape = Inr k \<and> well_formed k"
  then have wf: "well_formed k" by simp
  have k: "kl q p True reverse sample_shape = Inr k" using a by simp
  have tiled: "tf_tile (expand_dims0 k) (n # replicate (ndims (expand_dims0 k) - 1) 1)
                 = Inr \<lparr>shape = n # shape k, elems = concat (replicate n (elems k))\<rparr>" for n
    by (rule tf_tile_expand_dims0 [OF wf])
  show "kl_divergence kl self prior0 True sample_shape reverse =
          Inr \<lparr>shape = copies sample_shape # shape k,
               elems = concat (replicate (copies sample_shape) (elems k))\<rparr>"
  proof (cases "copies sample_shape = 1")
    case True
    then show ?thesis
      using assms k
      by (cases sample_shape)
         (auto simp: kl_divergence_def copies_def expand_dims0_def split: if_splits)
  next
    case False
    then obtain n where n: "sample_shape = Number n" "n > 1"
      by (cases sample_shape) (auto simp: copies_def split: if_splits)
    show ?thesis
      using assms k n
      by (simp only: kl_divergence_def copies_def tiled Let_def option.case sum.case
            sample_shape_arg.case if_True)
  qed
next
  show "kl_divergence kl self prior0 False sample_shape reverse =
          kl q p False reverse sample_shape"
    using assms by (simp add: kl_divergence_def split: sum.splits)
qed

theorem kl_divergence_analytic_expands_and_tiles_witness:
  "kl_divergence (\<lambda>q p analytic reverse s. Inr \<lparr>shape = [2], elems = [10, 20 :: nat]\<rparr>)
     \<lparr>units = 4, convert_to_tensor_fn = (DistributionSample :: unit convert_fn),
      prior = Some (7 :: nat), event_shape = [2],
      posterior_class = (OdinLayer NormalLayer :: unit layer_class),
      posterior_kwargs_rest = (), dropout = 0, disable_projection = False,
      last_distribution = Some \<lparr>base = 3, KL_divergence = None, prior_attr = Some (Some 7)\<rparr>\<rparr>
     None True (Number 3) True
   = Inr \<lparr>shape = [3, 2], elems = [10, 20, 10, 20, 10, 20]\<rparr> \<and>
   kl_divergence (\<lambda>q p analytic reverse s. Inr \<lparr>shape = [2], elems = [10, 20 :: nat]\<rparr>)
     \<lparr>units = 4, convert_to_tensor_fn = (DistributionSample :: unit convert_fn),
      prior = Some (7 :: nat), event_shape = [2],
      posterior_class = (OdinLayer NormalLayer :: unit layer_class),
      posterior_kwargs_rest = (), dropout = 0, disable_projection = False,
      last_distribution = Some \<lparr>base = 3, KL_divergence = None, prior_attr = Some (Some 7)\<rparr>\<rparr>
     None False (Number 3) True
   = Inr \<lparr>shape = [2], elems = [10, 20]\<rparr>"
proof -
  let ?self = "\<lparr>units = 4, convert_to_tensor_fn = (DistributionSample :: unit convert_fn),
      prior = Some (7 :: nat), event_shape = [2],
      posterior_class = (OdinLayer NormalLayer :: unit layer_class),
      posterior_kwargs_rest = (), dropout = 0, disable_projection = False,
      last_distribution = Some \<lparr>base = 3, KL_divergence = None, prior_attr = Some (Some 7)\<rparr>\<rparr>"
  let ?q = "\<lparr>base = 3 :: nat, KL_divergence = None, prior_attr = Some (Some 7)\<rparr>"
  let ?kl = "\<lambda>(q :: nat distribution) (p :: nat) (analytic :: bool) (reverse :: bool)
               (s :: sample_shape_arg). (Inr \<lparr>shape = [2], elems = [10, 20 :: nat]\<rparr> :: py_error + nat tensor)"
  have h1: "posterior ?self = Some ?q"
    by (simp add: posterior_def)
  have h2: "(case None of None \<Rightarrow> prior ?self | Some p' \<Rightarrow> Some p') = Some 7"
    by simp
  have c: "copies (Number 3) = 3"
    by (simp add: copies_def)
  show ?thesis
    using kl_divergence_analytic_expands_and_tiles [OF h1 h2, of ?kl True "Number 3"
        "\<lparr>shape = [2], elems = [10, 20]\<rparr>"]
    by (simp add: well_formed_def c numeral_3_eq_3)
qed


lemma params_size_of_Inr:
  assumes "params_size_of layer es = Inr n"
  shows "ps_args layer \<noteq> [] \<and>
         (length (ps_args layer) > 1 \<longrightarrow> ps_closure layer \<noteq> None) \<and>
         n = ps_fn layer
               (if hd (ps_args layer) = ''event_size'' then EventSize (prod_list es)
                else EventShape es)
               (if length (ps_args layer) > 1
                then (case ps_closure layer of
                        Some closures \<Rightarrow> closure_kwargs closures (tl (ps_args layer))
                      | None \<Rightarrow> [])
                else [])"
  using assms
  by (cases "ps_args layer"; cases "ps_closure layer")
     (auto simp: params_size_of_def Let_def split: if_splits)

text \<open>
  C3, as the code has it.  A \<^verbatim>\<open>DenseDistribution\<close> that has been constructed is a
  \<^verbatim>\<open>Dense\<close> layer whose number of units is what \<^verbatim>\<open>params_size\<close> of its posterior
  layer returns for the event shape (its product, when the first argument of
  \<^verbatim>\<open>params_size\<close> is called \<^verbatim>\<open>event_size\<close>) and the keyword arguments found in the
  closure; the posterior layer is the class handed in, or the layer of the alias.  A
  call with the projection enabled, whose fresh distribution has no attribute
  \<^verbatim>\<open>prior\<close> of its own, applies the projection to the inputs, then dropout when the
  rate is positive, builds the distribution from the result, records it, so that
  \<^verbatim>\<open>posterior\<close> returns it, and returns it with \<^verbatim>\<open>prior\<close> and \<^verbatim>\<open>KL_divergence\<close>
  attached.
\<close>

theorem DenseDistribution_units_and_call:
  "(DenseDistribution_init reflect event_shape0 posterior0 kwargs prior_init dropout0 disable0
      = Inr self0 \<longrightarrow>
    (let es = (case kw_event_size kwargs of
                 Some s \<Rightarrow> s
               | None \<Rightarrow> (case kw_event_shape kwargs of Some s \<Rightarrow> s | None \<Rightarrow> event_shape0));
         layer = reflect (posterior_class self0) es
                   (case kw_convert_to_tensor_fn kwargs of
                      Some (OtherFn f) \<Rightarrow> Plain f | _ \<Rightarrow> SampleWith [])
                   (kw_rest kwargs)
     in event_shape self0 = es \<and>
        (case posterior0 of
           LayerClass c \<Rightarrow> posterior_class self0 = UserLayer c
         | Alias a \<Rightarrow>
             (\<exists>cls. parse_distribution a = Inr cls \<and>
                    posterior_class self0 = OdinLayer (fst cls))) \<and>
        ps_args layer \<noteq> [] \<and>
        (length (ps_args layer) > 1 \<longrightarrow> ps_closure layer \<noteq> None) \<and>
        units self0 =
          ps_fn layer
            (if hd (ps_args layer) = ''event_size'' then EventSize (prod_list es)
             else EventShape es)
            (if length (ps_args layer) > 1
             then (case ps_closure layer of
                     Some closures \<Rightarrow> closure_kwargs closures (tl (ps_args layer))
                   | None \<Rightarrow> [])
             else []))) \<and>
   (let projected = Dense_call (units self) inputs;
        params = (if dropout self > 0 then bk_dropout projected (dropout self) training
                  else projected);
        d = layer_call (posterior_class self) (event_shape self)
              (case convert_to_tensor_fn self of
                 DistributionSample \<Rightarrow> SampleWith sample_shape | OtherFn f \<Rightarrow> Plain f)
              (posterior_kwargs_rest self) params training;
        prior1 = (case prior0 of None \<Rightarrow> prior self | Some p \<Rightarrow> Some p);
        obj = \<lparr>base = d,
               KL_divergence = Some \<lparr>kl_posterior = d, kl_prior = prior1,
                                      kl_sample_shape = None\<rparr>,
               prior_attr = Some prior1\<rparr>;
        result = call Dense_call bk_dropout layer_call has_prior self inputs training
                   sample_shape projection prior0
    in projection \<and> \<not> disable_projection self \<and> \<not> has_prior d \<longrightarrow>
         result = (self\<lparr>last_distribution := Some obj\<rparr>, Inr obj) \<and>
         posterior (fst result) = Some obj)"
proof (intro conjI impI)
  assume init: "DenseDistribution_init reflect event_shape0 posterior0 kwargs prior_init dropout0
            disable0 = Inr self0"
  define es where "es = (case kw_event_size kwargs of
                 Some s \<Rightarrow> s
               | None \<Rightarrow> (case kw_event_shape kwargs of Some s \<Rightarrow> s | None \<Rightarrow> event_shape0))"
  define fn where "fn = (case kw_convert_to_tensor_fn kwargs of
                      Some (OtherFn f) \<Rightarrow> Plain f | _ \<Rightarrow> SampleWith [])"
  define layer where "layer = reflect (posterior_class self0) es fn (kw_rest kwargs)"
  from init obtain cls n where
    cls: "(case posterior0 of
             LayerClass c \<Rightarrow> Inr (UserLayer c)
           | Alias a \<Rightarrow> (case parse_distribution a of
                          Inl e \<Rightarrow> Inl e | Inr (l, _) \<Rightarrow> Inr (OdinLayer l))) = Inr cls"
    and n: "params_size_of (reflect cls es fn (kw_rest kwargs)) es = Inr n"
    and self0: "self0 = \<lparr>units = n,
                   convert_to_tensor_fn = (case kw_convert_to_tensor_fn kwargs of
                                             Some f \<Rightarrow> f | None \<Rightarrow> DistributionSample),
                   prior = prior_init, event_shape = es, posterior_class = cls,
                   posterior_kwargs_rest = kw_rest kwargs, dropout = dropout0,
                   disable_projection = disable0, last_distribution = None\<rparr>"
    unfolding DenseDistribution_init_def Let_def es_def fn_def
    by (auto split: sum.splits option.splits convert_fn.splits)
  have pc: "posterior_class self0 = cls" and ev: "event_shape self0 = es"
    and un: "units self0 = n"
    by (simp_all add: self0)
  have post: "(case posterior0 of
           LayerClass c \<Rightarrow> posterior_class self0 = UserLayer c
         | Alias a \<Rightarrow>
             (\<exists>cls. parse_distribution a = Inr cls \<and>
                    posterior_class self0 = OdinLayer (fst cls)))"
    using cls unfolding pc by (auto split: posterior_arg.splits sum.splits prod.splits)
  note size = params_size_of_Inr [OF n [folded pc, folded layer_def]]
  show "let es = (case kw_event_size kwargs of
                 Some s \<Rightarrow> s
               | None \<Rightarrow> (case kw_event_shape kwargs of Some s \<Rightarrow> s | None \<Rightarrow> event_shape0));
         layer = reflect (posterior_class self0) es
                   (case kw_convert_to_tensor_fn kwargs of
                      Some (OtherFn f) \<Rightarrow> Plain f | _ \<Rightarrow> SampleWith [])
                   (kw_rest kwargs)
     in event_shape self0 = es \<and>
        (case posterior0 of
           LayerClass c \<Rightarrow> posterior_class self0 = UserLayer c
         | Alias a \<Rightarrow>
             (\<exists>cls. parse_distribution a = Inr cls \<and>
                    posterior_class self0 = OdinLayer (fst cls))) \<and>
        ps_args layer \<noteq> [] \<and>
        (length (ps_args layer) > 1 \<longrightarrow> ps_closure layer \<noteq> None) \<and>
        units self0 =
          ps_fn layer
            (if hd (ps_args layer) = ''event_size'' then EventSize (prod_list es)
             else EventShape es)
            (if length (ps_args layer) > 1
             then (case ps_closure layer of
                     Some closures \<Rightarrow> closure_kwargs closures (tl (ps_args layer))
                   | None \<Rightarrow> [])
             else [])"
    unfolding Let_def es_def [symmetric] fn_def [symmetric] layer_def [symmetric] un
    using ev post size by blast
next
  show "let projected = Dense_call (units self) inputs;
        params = (if dropout self > 0 then bk_dropout projected (dropout self) training
                  else projected);
        d = layer_call (posterior_class self) (event_shape self)
              (case convert_to_tensor_fn self of
                 DistributionSample \<Rightarrow> SampleWith sample_shape | OtherFn f \<Rightarrow> Plain f)
              (posterior_kwargs_rest self) params training;
        prior1 = (case prior0 of None \<Rightarrow> prior self | Some p \<Rightarrow> Some p);
        obj = \<lparr>base = d,
               KL_divergence = Some \<lparr>kl_posterior = d, kl_prior = prior1,
                                      kl_sample_shape = None\<rparr>,
               prior_attr = Some prior1\<rparr>;
        result = call Dense_call bk_dropout layer_call has_prior self inputs training
                   sample_shape projection prior0
    in projection \<and> \<not> disable_projection self \<and> \<not> has_prior d \<longrightarrow>
         result = (self\<lparr>last_distribution := Some obj\<rparr>, Inr obj) \<and>
         posterior (fst result) = Some obj"
    by (simp add: call_def posterior_def Let_def)
qed

text \<open>
  C3 as stated fails in two ways.  A call whose fresh distribution has an attribute
  \<^verbatim>\<open>prior\<close> raises \<^verbatim>\<open>AssertionError\<close> and returns nothing.  With a dropout rate of
  one half and \<^verbatim>\<open>training=True\<close>, the distribution is built from the parameters that
  dropout returns, here zeros, not from the projected parameters, here 3 and 3.
\<close>

theorem DenseDistribution_call_counterexample:
  "snd (call (\<lambda>u x. replicate u (sum_list x)) (\<lambda>x p t. x) (\<lambda>cls es fn rest params t. params)
          (\<lambda>d. True)
          \<lparr>units = 2, convert_to_tensor_fn = (DistributionSample :: unit convert_fn),
           prior = Some [7 :: nat], event_shape = [1],
           posterior_class = (OdinLayer NormalLayer :: unit layer_class),
           posterior_kwargs_rest = (), dropout = 0, disable_projection = False,
           last_distribution = None\<rparr>
          [1, 2] None [] True None)
     = Inl (AssertionError ''Cannot assign prior to the output'') \<and>
   snd (call (\<lambda>u x. replicate u (sum_list x)) (\<lambda>x p t. map (\<lambda>v. 0) x)
          (\<lambda>cls es fn rest params t. params) (\<lambda>d. False)
          \<lparr>units = 2, convert_to_tensor_fn = (DistributionSample :: unit convert_fn),
           prior = Some [7 :: nat], event_shape = [1],
           posterior_class = (OdinLayer NormalLayer :: unit layer_class),
           posterior_kwargs_rest = (), dropout = 1 / 2, disable_projection = False,
           last_distribution = None\<rparr>
          [1, 2] (Some True) [] True None)
     = Inr \<lparr>base = [0, 0],
            KL_divergence = Some \<lparr>kl_posterior = [0, 0], kl_prior = Some [7],
                                   kl_sample_shape = None\<rparr>,
            prior_attr = Some (Some [7])\<rparr> \<and>
   replicate 2 (sum_list [1, 2 :: nat]) = [3, 3]"
  by (simp add: call_def Let_def numeral_2_eq_2)

text \<open>
  The theorem at the alias \<^verbatim>\<open>'Normal'\<close> with the event shape 3, a \<^verbatim>\<open>params_size\<close>
  of the arguments \<^verbatim>\<open>event_size\<close> and \<^verbatim>\<open>validate_args\<close>, and a call on two inputs.
\<close>

theorem DenseDistribution_units_and_call_witness:
  "DenseDistribution_init
     (\<lambda>cls es fn rest. \<lparr>ps_args = [''event_size'', ''validate_args''],
        ps_closure = Some [''validate_args'' \<mapsto> False, ''name'' \<mapsto> True],
        ps_fn = (\<lambda>ev kw. case ev of EventShape s \<Rightarrow> 0 | EventSize n \<Rightarrow> 2 * n + length kw)\<rparr>)
     [3] (Alias ''Normal'' :: unit posterior_arg)
     \<lparr>kw_event_shape = None, kw_event_size = None,
      kw_convert_to_tensor_fn = (None :: unit convert_fn option), kw_rest = ()\<rparr>
     (Some [7 :: nat]) 0 False
   = Inr \<lparr>units = 7, convert_to_tensor_fn = DistributionSample, prior = Some [7],
          event_shape = [3], posterior_class = OdinLayer NormalLayer,
          posterior_kwargs_rest = (), dropout = 0, disable_projection = False,
          last_distribution = None\<rparr> \<and>
   call (\<lambda>u x. replicate u (sum_list x)) (\<lambda>x p t. x) (\<lambda>cls es fn rest params t. params) (\<lambda>d. False)
     \<lparr>units = 7, convert_to_tensor_fn = (DistributionSample :: unit convert_fn),
      prior = Some [7 :: nat],
      event_shape = [3], posterior_class = (OdinLayer NormalLayer :: unit layer_class),
      posterior_kwargs_rest = (), dropout = 0, disable_projection = False,
      last_distribution = None\<rparr>
     [1, 2] None [] True None
   = (\<lparr>units = 7, convert_to_tensor_fn = DistributionSample, prior = Some [7],
       event_shape = [3], posterior_class = OdinLayer NormalLayer,
       posterior_kwargs_rest = (), dropout = 0, disable_projection = False,
       last_distribution = Some
         \<lparr>base = [3, 3, 3, 3, 3, 3, 3],
          KL_divergence = Some \<lparr>kl_posterior = [3, 3, 3, 3, 3, 3, 3], kl_prior = Some [7],
                                 kl_sample_shape = None\<rparr>,
          prior_attr = Some (Some [7])\<rparr>\<rparr>,
      Inr \<lparr>base = [3, 3, 3, 3, 3, 3, 3],
           KL_divergence = Some \<lparr>kl_posterior = [3, 3, 3, 3, 3, 3, 3], kl_prior = Some [7],
                                  kl_sample_shape = None\<rparr>,
           prior_attr = Some (Some [7])\<rparr>)"
proof -
  let ?reflect = "\<lambda>(cls :: unit layer_class) (es :: nat list) (fn :: unit layer_fn) (rest :: unit).
     \<lparr>ps_args = [''event_size'', ''validate_args''],
      ps_closure = Some [''validate_args'' \<mapsto> False, ''name'' \<mapsto> True],
      ps_fn = (\<lambda>ev kw. case ev of EventShape s \<Rightarrow> 0 | EventSize n \<Rightarrow> 2 * n + length kw)\<rparr>"
  let ?kwargs = "\<lparr>kw_event_shape = None, kw_event_size = None,
      kw_convert_to_tensor_fn = (None :: unit convert_fn option), kw_rest = ()\<rparr>"
  let ?self = "\<lparr>units = 7, convert_to_tensor_fn = (DistributionSample :: unit convert_fn),
      prior = Some [7 :: nat],
      event_shape = [3], posterior_class = (OdinLayer NormalLayer :: unit layer_class),
      posterior_kwargs_rest = (), dropout = 0, disable_projection = False,
      last_distribution = None\<rparr>"
  have init: "DenseDistribution_init ?reflect [3] (Alias ''Normal'') ?kwargs (Some [7]) 0 False
                = Inr ?self"
    by (simp add: DenseDistribution_init_def parse_distribution_Normal params_size_of_def
          closure_kwargs_def)
  note th = DenseDistribution_units_and_call [of ?reflect "[3]" "Alias ''Normal''" ?kwargs
      "Some [7]" 0 False ?self "\<lambda>u x. replicate u (sum_list x)" ?self "[1, 2]" "\<lambda>x p t. x" None
      "\<lambda>cls es fn rest params t. params" "[]" None "\<lambda>d. False" True, unfolded Let_def]
  from mp [OF conjunct1 [OF th] init]
  have size: "units ?self = 7"
    by simp
  have run: "call (\<lambda>u x. replicate u (sum_list x)) (\<lambda>x p t. x)
               (\<lambda>cls es fn rest params t. params) (\<lambda>d. False) ?self [1, 2] None [] True None
             = (?self\<lparr>last_distribution := Some
                  \<lparr>base = [3, 3, 3, 3, 3, 3, 3],
                   KL_divergence = Some \<lparr>kl_posterior = [3, 3, 3, 3, 3, 3, 3],
                                          kl_prior = Some [7], kl_sample_shape = None\<rparr>,
                   prior_attr = Some (Some [7])\<rparr>\<rparr>,
                Inr \<lparr>base = [3, 3, 3, 3, 3, 3, 3],
                     KL_divergence = Some \<lparr>kl_posterior = [3, 3, 3, 3, 3, 3, 3],
                                            kl_prior = Some [7], kl_sample_shape = None\<rparr>,
                     prior_attr = Some (Some [7])\<rparr>)"
    using conjunct2 [OF th] by (simp add: numeral_eq_Suc)
  show ?thesis
    using init run size by simp
qed

subsection \<open>normalize\_255\<close>








subsection \<open>FactorVAE\<close>

lemma bit_length_0: "bit_length 0 = 0"
  by (subst bit_length.simps) simp

lemma bit_length_step: "0 < m \<Longrightarrow> bit_length m = Suc (bit_length (m div 2))"
  by (subst bit_length.simps) simp

lemma bit_length_le: "m < 2 ^ p \<Longrightarrow> bit_length m \<le> p"
proof (induction p arbitrary: m)
  case 0
  then show ?case by (simp add: bit_length_0)
next
  case (Suc p)
  show ?case
  proof (cases "m = 0")
    case True
    then show ?thesis by (simp add: bit_length_0)
  next
    case False
    from Suc.prems have "m div 2 < 2 ^ p" by simp
    then have "bit_length (m div 2) \<le> p" by (rule Suc.IH)
    with False show ?thesis by (simp add: bit_length_step)
  qed
qed

lemma bit_length_power2: "bit_length (2 ^ p) = Suc p"
proof (induction p)
  case 0
  then show ?case by (simp add: bit_length_step bit_length_0)
next
  case (Suc p)
  have "bit_length (2 ^ Suc p) = Suc (bit_length (2 ^ Suc p div 2))"
    by (rule bit_length_step) simp
  with Suc show ?case by simp
qed

lemma round_to_bits_exact: "m < 2 ^ p \<Longrightarrow> round_to_bits p m = m"
  by (simp add: round_to_bits_def bit_length_le)

lemma round_to_bits_power2:
  assumes "0 < p"
  shows "round_to_bits p (2 ^ p) = 2 ^ p"
proof -
  have k: "bit_length (2 ^ p) - p = 1" and nle: "\<not> bit_length (2 ^ p) \<le> p"
    by (simp_all add: bit_length_power2)
  from assms have ev: "even ((2 :: nat) ^ p)" by simp
  then have r: "(2 :: nat) ^ p mod 2 = 0" and q: "(2 :: nat) ^ p div 2 * 2 = 2 ^ p"
    by simp_all
  show ?thesis
    unfolding round_to_bits_def Let_def k using nle r q by simp
qed

lemma assign_add_1_exact:
  assumes "0 < p" and "c < 2 ^ p"
  shows "assign_add_1 p c = c + 1"
proof (cases "c + 1 < 2 ^ p")
  case True
  then show ?thesis by (simp add: assign_add_1_def round_to_bits_exact)
next
  case False
  with assms(2) have "c + 1 = 2 ^ p" by simp
  then show ?thesis
    using round_to_bits_power2 [OF assms(1)] by (simp add: assign_add_1_def)
qed

lemma bit_length_gt: "2 ^ p \<le> m \<Longrightarrow> p < bit_length m"
proof (induction p arbitrary: m)
  case 0
  then show ?case by (simp add: bit_length_step)
next
  case (Suc p)
  have pos: "0 < m"
  proof (rule ccontr)
    assume "\<not> 0 < m"
    then have "m = 0" by simp
    with Suc.prems show False by simp
  qed
  from Suc.prems have "2 ^ p \<le> m div 2" by simp
  then have "p < bit_length (m div 2)" by (rule Suc.IH)
  with pos show ?case by (simp add: bit_length_step)
qed

lemma assign_add_1_float32_stays: "assign_add_1 24 16777216 = 16777216"
proof -
  have "bit_length 16777217 \<le> 25"
    by (rule bit_length_le) simp
  moreover have "24 < bit_length 16777217"
    by (rule bit_length_gt) simp
  ultimately have bl: "bit_length 16777217 = 25" by simp
  show ?thesis
    by (simp add: assign_add_1_def round_to_bits_def bl)
qed

text \<open>
  C1, as the code has it.  On a tensor whose first axis has even size, with the step
  counter below \<open>2 ^ p\<close> for the \<open>p\<close> significant bits of its type, and resumed when
  the first step holds its posterior \<^verbatim>\<open>qZ_X\<close>, \<^verbatim>\<open>train_steps\<close> adds exactly 1 to the
  step counter, splits the minibatch into its two halves along the first axis (equal
  shapes, and the elements of the first followed by those of the second are the
  elements of the input) and yields exactly two steps, in this order: a \<^verbatim>\<open>TrainStep\<close>
  on the first half with the parameters \<^verbatim>\<open>vae_params\<close>, then a \<^verbatim>\<open>FactorStep\<close> on the
  second half and that \<^verbatim>\<open>qZ_X\<close> with the parameters \<^verbatim>\<open>disc_params\<close>.
\<close>

theorem train_steps_even_batch:
  assumes "shape t = s # ss" and "even s" and "0 < p" and "step self < 2 ^ p"
  shows "\<exists>x1 x2.
           tf_split2 t = Inr (x1, x2) \<and>
           shape x1 = s div 2 # ss \<and> shape x2 = s div 2 # ss \<and>
           elems x1 @ elems x2 = elems t \<and>
           (well_formed t \<longrightarrow> well_formed x1 \<and> well_formed x2) \<and>
           train_steps p mode self (Tensor t) training mask_arg sample_shape iw elbo_kw (Some q) =
             \<lparr>model = self\<lparr>step := step self + 1\<rparr>,
              steps =
                [First \<lparr>ts_inputs = Tensor x1, ts_training = training, ts_mask = mask_arg,
                        ts_sample_shape = sample_shape, ts_iw = iw, ts_elbo_kw = elbo_kw,
                        ts_parameters = vae_params self\<rparr>,
                 Second \<lparr>fs_inputs = (Tensor x2, q), fs_training = training,
                         fs_mask = mask_arg, fs_sample_shape = sample_shape,
                         fs_parameters = disc_params self\<rparr>],
              raised = None\<rparr>"
proof -
  define k where "k = s div 2 * prod_list ss"
  define x1 where "x1 = \<lparr>shape = s div 2 # ss, elems = take k (elems t)\<rparr>"
  define x2 where "x2 = \<lparr>shape = s div 2 # ss, elems = drop k (elems t)\<rparr>"
  have split: "tf_split2 t = Inr (x1, x2)"
    using assms(1,2)
    by (simp add: tf_split2_def x1_def x2_def k_def Let_def even_iff_mod_2_eq_zero)
  have wf: "well_formed x1 \<and> well_formed x2" if "well_formed t"
  proof -
    from \<open>even s\<close> have "s = 2 * (s div 2)" by simp
    then have "prod_list (shape t) = 2 * k"
      using assms(1) by (simp add: k_def)
    with that have "length (elems t) = 2 * k" by (simp add: well_formed_def)
    then show ?thesis by (simp add: well_formed_def x1_def x2_def k_def)
  qed
  have counter: "assign_add_1 p (step self) = step self + 1"
    by (rule assign_add_1_exact [OF assms(3,4)])
  have run: "train_steps p mode self (Tensor t) training mask_arg sample_shape iw elbo_kw (Some q) =
             \<lparr>model = self\<lparr>step := step self + 1\<rparr>,
              steps =
                [First \<lparr>ts_inputs = Tensor x1, ts_training = training, ts_mask = mask_arg,
                        ts_sample_shape = sample_shape, ts_iw = iw, ts_elbo_kw = elbo_kw,
                        ts_parameters = vae_params self\<rparr>,
                 Second \<lparr>fs_inputs = (Tensor x2, q), fs_training = training,
                         fs_mask = mask_arg, fs_sample_shape = sample_shape,
                         fs_parameters = disc_params self\<rparr>],
              raised = None\<rparr>"
    by (simp add: train_steps_def split counter Let_def)
  have "shape x1 = s div 2 # ss" "shape x2 = s div 2 # ss" "elems x1 @ elems x2 = elems t"
    by (simp_all add: x1_def x2_def)
  with split wf run show ?thesis by blast
qed

lemma odd_batch_eager:
  "train_steps 24 Eager \<lparr>step = 0, gamma = (), disc_params = [], vae_params = []\<rparr>
     (Tensor \<lparr>shape = [3], elems = [1, 2, 3 :: nat]\<rparr>) None () [] False () (Some ())
   = \<lparr>model = \<lparr>step = 1, gamma = (), disc_params = [], vae_params = []\<rparr>,
      steps = [],
      raised = Some (InvalidArgumentError ''Dimension size must be evenly divisible by 2'')\<rparr>"
proof -
  have "assign_add_1 24 0 = 0 + 1"
    by (rule assign_add_1_exact) simp_all
  then show ?thesis
    by (simp add: train_steps_def tf_split2_def)
qed

lemma odd_batch_traced:
  "train_steps 24 Traced \<lparr>step = 0, gamma = (), disc_params = [], vae_params = []\<rparr>
     (Tensor \<lparr>shape = [3], elems = [1, 2, 3 :: nat]\<rparr>) None () [] False () (Some ())
   = \<lparr>model = \<lparr>step = 0, gamma = (), disc_params = [], vae_params = []\<rparr>,
      steps = [],
      raised = Some (InvalidArgumentError ''Dimension size must be evenly divisible by 2'')\<rparr>"
  by (simp add: train_steps_def tf_split2_def)

lemma first_step_never_called:
  "train_steps 24 Eager \<lparr>step = 0, gamma = (), disc_params = [], vae_params = []\<rparr>
     (Tensor \<lparr>shape = [2], elems = [1, 2 :: nat]\<rparr>) None () [] False () (None :: unit option)
   = \<lparr>model = \<lparr>step = 1, gamma = (), disc_params = [], vae_params = []\<rparr>,
      steps = [First \<lparr>ts_inputs = Tensor \<lparr>shape = [1], elems = [1]\<rparr>, ts_training = None,
                      ts_mask = (), ts_sample_shape = [], ts_iw = False, ts_elbo_kw = (),
                      ts_parameters = []\<rparr>],
      raised = Some (AttributeError ''qZ_X'')\<rparr>"
proof -
  have "assign_add_1 24 0 = 0 + 1"
    by (rule assign_add_1_exact) simp_all
  then show ?thesis
    by (simp add: train_steps_def tf_split2_def)
qed

lemma float32_counter_stays:
  "step (model (train_steps 24 Eager
           \<lparr>step = 16777216, gamma = (), disc_params = [], vae_params = []\<rparr>
           (Tensor \<lparr>shape = [2], elems = [1, 2 :: nat]\<rparr>) None () [] False () (Some ())))
   = 16777216"
  by (simp add: train_steps_def tf_split2_def assign_add_1_float32_stays)

text \<open>
  C1 as stated fails in three ways.  On a minibatch of three rows the split raises and
  the generator yields no step, run eagerly or traced.  On a minibatch of two rows
  whose first step has no \<^verbatim>\<open>qZ_X\<close> when the generator is resumed, the generator yields
  one step and raises \<^verbatim>\<open>AttributeError\<close>.  With a \<^verbatim>\<open>float32\<close> counter at 16777216,
  adding \<^verbatim>\<open>1.\<close> leaves the counter where it is.
\<close>

theorem train_steps_counterexample:
  "steps (train_steps 24 Eager \<lparr>step = 0, gamma = (), disc_params = [], vae_params = []\<rparr>
            (Tensor \<lparr>shape = [3], elems = [1, 2, 3 :: nat]\<rparr>) None () [] False () (Some ()))
     = [] \<and>
   steps (train_steps 24 Traced \<lparr>step = 0, gamma = (), disc_params = [], vae_params = []\<rparr>
            (Tensor \<lparr>shape = [3], elems = [1, 2, 3 :: nat]\<rparr>) None () [] False () (Some ()))
     = [] \<and>
   train_steps 24 Eager \<lparr>step = 0, gamma = (), disc_params = [], vae_params = []\<rparr>
     (Tensor \<lparr>shape = [2], elems = [1, 2 :: nat]\<rparr>) None () [] False () (None :: unit option)
     = \<lparr>model = \<lparr>step = 1, gamma = (), disc_params = [], vae_params = []\<rparr>,
        steps = [First \<lparr>ts_inputs = Tensor \<lparr>shape = [1], elems = [1]\<rparr>, ts_training = None,
                        ts_mask = (), ts_sample_shape = [], ts_iw = False, ts_elbo_kw = (),
                        ts_parameters = []\<rparr>],
        raised = Some (AttributeError ''qZ_X'')\<rparr> \<and>
   step (model (train_steps 24 Eager
           \<lparr>step = 16777216, gamma = (), disc_params = [], vae_params = []\<rparr>
           (Tensor \<lparr>shape = [2], elems = [1, 2 :: nat]\<rparr>) None () [] False () (Some ())))
     = 16777216"
  unfolding odd_batch_eager odd_batch_traced
  using first_step_never_called float32_counter_stays by simp

text \<open>The theorem at a minibatch of four rows and a \<^verbatim>\<open>float32\<close> counter at 7.\<close>

theorem train_steps_even_batch_witness:
  "train_steps 24 Eager
     \<lparr>step = 7, gamma = (),
      disc_params = [\<lparr>var_id = 3, var_name = ''discriminator/kernel''\<rparr>],
      vae_params = [\<lparr>var_id = 1, var_name = ''encoder/kernel''\<rparr>]\<rparr>
     (Tensor \<lparr>shape = [4, 2], elems = [1, 2, 3, 4, 5, 6, 7, 8 :: nat]\<rparr>)
     (Some True) () [] False () (Some ''qZ_X'')
   = \<lparr>model = \<lparr>step = 8, gamma = (),
                disc_params = [\<lparr>var_id = 3, var_name = ''discriminator/kernel''\<rparr>],
                vae_params = [\<lparr>var_id = 1, var_name = ''encoder/kernel''\<rparr>]\<rparr>,
      steps =
        [First \<lparr>ts_inputs = Tensor \<lparr>shape = [2, 2], elems = [1, 2, 3, 4]\<rparr>,
                ts_training = Some True, ts_mask = (), ts_sample_shape = [], ts_iw = False,
                ts_elbo_kw = (),
                ts_parameters = [\<lparr>var_id = 1, var_name = ''encoder/kernel''\<rparr>]\<rparr>,
         Second \<lparr>fs_inputs = (Tensor \<lparr>shape = [2, 2], elems = [5, 6, 7, 8]\<rparr>, ''qZ_X''),
                 fs_training = Some True, fs_mask = (), fs_sample_shape = [],
                 fs_parameters = [\<lparr>var_id = 3, var_name = ''discriminator/kernel''\<rparr>]\<rparr>],
      raised = None\<rparr>"
proof -
  let ?t = "\<lparr>shape = [4, 2], elems = [1, 2, 3, 4, 5, 6, 7, 8 :: nat]\<rparr>"
  have h1: "shape ?t = 4 # [2]" by simp
  have h2: "even (4 :: nat)" by simp
  have h3: "(0 :: nat) < 24" by simp
  have h4: "step \<lparr>step = 7, gamma = (),
        disc_params = [\<lparr>var_id = 3, var_name = ''discriminator/kernel''\<rparr>],
        vae_params = [\<lparr>var_id = 1, var_name = ''encoder/kernel''\<rparr>]\<rparr> < 2 ^ 24"
    by simp
  have s: "tf_split2 ?t = Inr (\<lparr>shape = [2, 2], elems = [1, 2, 3, 4]\<rparr>,
                               \<lparr>shape = [2, 2], elems = [5, 6, 7, 8]\<rparr>)"
    by (simp add: tf_split2_def)
  from train_steps_even_batch [OF h1 h2 h3 h4, of Eager "Some True" "()" "[]" False "()"
      "''qZ_X''"]
  show ?thesis
    unfolding s by auto
qed

text \<open>
  C4.  \<^verbatim>\<open>total_correlation\<close> is the discriminator's estimate for \<^verbatim>\<open>qZ_X\<close>, multiplied
  by \<^verbatim>\<open>gamma\<close> when \<^verbatim>\<open>scaled_by_gamma\<close> is true and as it is otherwise; \<^verbatim>\<open>_elbo\<close>
  returns the likelihood of the parent class and the parent's dictionary of divergences
  with the entry \<^verbatim>\<open>'tc'\<close> set to the estimate multiplied by \<^verbatim>\<open>gamma\<close>.
\<close>

theorem total_correlation_scaled_and_elbo_tc:
  "total_correlation discriminator_total_correlation tf_multiply self qZ_X True training =
     tf_multiply (gamma self) (discriminator_total_correlation qZ_X training) \<and>
   total_correlation discriminator_total_correlation tf_multiply self qZ_X False training =
     discriminator_total_correlation qZ_X training \<and>
   elbo super_elbo discriminator_total_correlation tf_multiply self X pX_Z qZ_X analytic reverse
     sample_shape mask_arg training =
     (fst (super_elbo X pX_Z qZ_X analytic reverse sample_shape),
      (snd (super_elbo X pX_Z qZ_X analytic reverse sample_shape))
        (''tc'' \<mapsto> tf_multiply (gamma self) (discriminator_total_correlation qZ_X training)))"
  by (simp add: total_correlation_def elbo_def split: prod.splits)

text \<open>
  C6.  After \<^verbatim>\<open>__init__\<close>: \<^verbatim>\<open>disc_params\<close> is the list of the discriminator's trainable
  variables; \<^verbatim>\<open>vae_params\<close> holds exactly the trainable variables of the model whose
  identity is not among them; no identity occurs in both; every trainable variable of
  the model is in one of the two, and when the model's trainable variables include the
  discriminator's (Keras tracks the discriminator as a sublayer) the two lists together
  hold exactly the model's trainable variables.  \<^verbatim>\<open>train_steps\<close> leaves both lists as
  they are.
\<close>

theorem FactorVAE_init_splits_params:
  "(let self = FactorVAE_init step0 gamma0 dv tv in
      disc_params self = dv \<and>
      set (vae_params self) = {p \<in> set tv. py_id p \<notin> py_id ` set dv} \<and>
      py_id ` set (vae_params self) \<inter> py_id ` set (disc_params self) = {} \<and>
      py_id ` set tv \<subseteq> py_id ` set (vae_params self) \<union> py_id ` set (disc_params self) \<and>
      (py_id ` set dv \<subseteq> py_id ` set tv \<longrightarrow>
         py_id ` set (vae_params self) \<union> py_id ` set (disc_params self) = py_id ` set tv) \<and>
      vae_params (model (train_steps p mode self inputs training mask_arg sample_shape iw elbo_kw qZ_X))
        = vae_params self \<and>
      disc_params (model (train_steps p mode self inputs training mask_arg sample_shape iw elbo_kw qZ_X))
        = disc_params self)"
proof -
  have inv: "vae_params (model (train_steps p mode s inputs training mask_arg sample_shape iw elbo_kw qZ_X))
               = vae_params s \<and>
             disc_params (model (train_steps p mode s inputs training mask_arg sample_shape iw elbo_kw qZ_X))
               = disc_params s" for s :: "'a FactorVAE"
    by (simp add: train_steps_def Let_def split: sum.splits prod.splits option.splits nest.splits
          execution.splits)
  show ?thesis
    unfolding Let_def
    apply (intro conjI)
          apply (simp add: FactorVAE_init_def)
         apply (auto simp: FactorVAE_init_def)[1]
        apply (auto simp: FactorVAE_init_def)[1]
       apply (auto simp: FactorVAE_init_def)[1]
      apply (auto simp: FactorVAE_init_def)[1]
     apply (simp add: inv)
    apply (simp add: inv)
    done
qed

text \<open>The theorem at a model of four variables, two of them the discriminator's.\<close>

theorem FactorVAE_init_splits_params_witness:
  "py_id ` set [\<lparr>var_id = 3, var_name = ''discriminator/kernel''\<rparr>,
                \<lparr>var_id = 4, var_name = ''discriminator/bias''\<rparr>]
     \<subseteq> py_id ` set [\<lparr>var_id = 1, var_name = ''encoder/kernel''\<rparr>,
                     \<lparr>var_id = 2, var_name = ''decoder/kernel''\<rparr>,
                     \<lparr>var_id = 3, var_name = ''discriminator/kernel''\<rparr>,
                     \<lparr>var_id = 4, var_name = ''discriminator/bias''\<rparr>] \<and>
   vae_params (FactorVAE_init 0 (10 :: real)
       [\<lparr>var_id = 3, var_name = ''discriminator/kernel''\<rparr>,
        \<lparr>var_id = 4, var_name = ''discriminator/bias''\<rparr>]
       [\<lparr>var_id = 1, var_name = ''encoder/kernel''\<rparr>,
        \<lparr>var_id = 2, var_name = ''decoder/kernel''\<rparr>,
        \<lparr>var_id = 3, var_name = ''discriminator/kernel''\<rparr>,
        \<lparr>var_id = 4, var_name = ''discriminator/bias''\<rparr>])
     = [\<lparr>var_id = 1, var_name = ''encoder/kernel''\<rparr>,
        \<lparr>var_id = 2, var_name = ''decoder/kernel''\<rparr>] \<and>
   py_id ` set (vae_params (FactorVAE_init 0 (10 :: real)
       [\<lparr>var_id = 3, var_name = ''discriminator/kernel''\<rparr>,
        \<lparr>var_id = 4, var_name = ''discriminator/bias''\<rparr>]
       [\<lparr>var_id = 1, var_name = ''encoder/kernel''\<rparr>,
        \<lparr>var_id = 2, var_name = ''decoder/kernel''\<rparr>,
        \<lparr>var_id = 3, var_name = ''discriminator/kernel''\<rparr>,
        \<lparr>var_id = 4, var_name = ''discriminator/bias''\<rparr>])) \<union>
   py_id ` set (disc_params (FactorVAE_init 0 (10 :: real)
       [\<lparr>var_id = 3, var_name = ''discriminator/kernel''\<rparr>,
        \<lparr>var_id = 4, var_name = ''discriminator/bias''\<rparr>]
       [\<lparr>var_id = 1, var_name = ''encoder/kernel''\<rparr>,
        \<lparr>var_id = 2, var_name = ''decoder/kernel''\<rparr>,
        \<lparr>var_id = 3, var_name = ''discriminator/kernel''\<rparr>,
        \<lparr>var_id = 4, var_name = ''discriminator/bias''\<rparr>]))
     = {1, 2, 3, 4}"
proof -
  let ?dv = "[\<lparr>var_id = 3, var_name = ''discriminator/kernel''\<rparr>,
              \<lparr>var_id = 4, var_name = ''discriminator/bias''\<rparr>]"
  let ?tv = "[\<lparr>var_id = 1, var_name = ''encoder/kernel''\<rparr>,
              \<lparr>var_id = 2, var_name = ''decoder/kernel''\<rparr>,
              \<lparr>var_id = 3, var_name = ''discriminator/kernel''\<rparr>,
              \<lparr>var_id = 4, var_name = ''discriminator/bias''\<rparr>]"
  have sub: "py_id ` set ?dv \<subseteq> py_id ` set ?tv"
    by (simp add: py_id_def)
  have ids: "py_id ` set ?tv = {1, 2, 3, 4}"
    by (simp add: py_id_def)
  have vae: "vae_params (FactorVAE_init 0 (10 :: real) ?dv ?tv)
               = [\<lparr>var_id = 1, var_name = ''encoder/kernel''\<rparr>,
                  \<lparr>var_id = 2, var_name = ''decoder/kernel''\<rparr>]"
    by (simp add: FactorVAE_init_def py_id_def)
  note th = FactorVAE_init_splits_params [of 0 "10 :: real" ?dv ?tv, unfolded Let_def]
  have imp: "py_id ` set ?dv \<subseteq> py_id ` set ?tv \<longrightarrow>
          py_id ` set (vae_params (FactorVAE_init 0 (10 :: real) ?dv ?tv)) \<union>
          py_id ` set (disc_params (FactorVAE_init 0 (10 :: real) ?dv ?tv)) = py_id ` set ?tv"
    by (rule conjunct1 [OF conjunct2 [OF conjunct2 [OF conjunct2 [OF conjunct2 [OF th]]]]])
  have un: "py_id ` set (vae_params (FactorVAE_init 0 (10 :: real) ?dv ?tv)) \<union>
          py_id ` set (disc_params (FactorVAE_init 0 (10 :: real) ?dv ?tv)) = py_id ` set ?tv"
    by (rule mp [OF imp sub])
  have un': "py_id ` set (vae_params (FactorVAE_init 0 (10 :: real) ?dv ?tv)) \<union>
          py_id ` set (disc_params (FactorVAE_init 0 (10 :: real) ?dv ?tv)) = {1, 2, 3, 4}"
    by (rule trans [OF un ids])
  show ?thesis
    by (intro conjI sub vae un')
qed

lemma training_not_global:
  "load_global value_of factor_vae_module_names builtin_names ''training''
     = Inl (NameError ''training'')"
  by (simp add: load_global_def factor_vae_module_names_def builtin_names_def)

text \<open>
  C8.  Every call of a \<^verbatim>\<open>FactorStep\<close> ends in an exception: when \<^verbatim>\<open>encode\<close> returns, the
  lookup of the name \<^verbatim>\<open>training\<close> raises \<^verbatim>\<open>NameError\<close> before \<^verbatim>\<open>dtc_loss\<close> is called
  (an exception of \<^verbatim>\<open>encode\<close> itself comes first); no call returns a loss.
\<close>

theorem FactorStep_call_raises_NameError:
  "FactorStep_call encode dtc_loss value_of self =
     (case encode (fst (fs_inputs self)) (fs_training self) (fs_mask self)
             (fs_sample_shape self) of
        Inl e \<Rightarrow> Inl e
      | Inr qZ_Xprime \<Rightarrow> Inl (NameError ''training'')) \<and>
   (\<forall>r. FactorStep_call encode dtc_loss value_of self \<noteq> Inr r)"
  by (simp add: FactorStep_call_def training_not_global split: prod.splits sum.splits)

subsection \<open>fast\_tsne\<close>

lemma check_inputs_arrays:
  "X1 \<noteq> [] \<Longrightarrow> check_inputs (map NDArray X1) = Inr X1"
  "check_inputs (Sequence (map NDArray X1) # rest) = Inr X1"
  by (cases X1; simp add: check_inputs_def list_all_iff comp_def map_idI)+

lemma permutation_prefix:
  assumes "distinct ids" and "set ids = {0..<m}" and "n < m"
  shows "length (take n ids) = n" and "distinct (take n ids)"
    and "set (take n ids) \<subseteq> {0..<m}" and "list_all (\<lambda>i. i < m) (take n ids)"
proof -
  from assms(1,2) have "length ids = m"
    using distinct_card [of ids] by simp
  with \<open>n < m\<close> show "length (take n ids) = n" by simp
  show "distinct (take n ids)" using assms(1) by (rule distinct_take)
  show sub: "set (take n ids) \<subseteq> {0..<m}"
    using set_take_subset [of n ids] assms(2) by blast
  then show "list_all (\<lambda>i. i < m) (take n ids)"
    by (auto simp: list_all_iff)
qed

lemma downsampling_selects:
  assumes perm: "\<And>g m. distinct (fst (perm g m)) \<and> set (fst (perm g m)) = {0..<m}"
  shows "\<exists>Y. downsampling perm n rand X = Inr Y \<and>
           list_all2 (\<lambda>x y. if n < length x
                            then length y = n \<and>
                              (\<exists>g. distinct (take n (fst (perm g (length x)))) \<and>
                                   set (take n (fst (perm g (length x)))) \<subseteq> {0..<length x} \<and>
                                   y = map (\<lambda>i. x ! i) (take n (fst (perm g (length x)))))
                            else y = x) X Y"
proof (induction X arbitrary: rand)
  case Nil
  then show ?case by simp
next
  case (Cons x X)
  show ?case
  proof (cases "n < length x")
    case False
    from Cons.IH [of rand] obtain Y where
      "downsampling perm n rand X = Inr Y" and "list_all2 (\<lambda>x y. if n < length x
                            then length y = n \<and>
                              (\<exists>g. distinct (take n (fst (perm g (length x)))) \<and>
                                   set (take n (fst (perm g (length x)))) \<subseteq> {0..<length x} \<and>
                                   y = map (\<lambda>i. x ! i) (take n (fst (perm g (length x)))))
                            else y = x) X Y"
      by blast
    with False show ?thesis by simp
  next
    case True
    obtain ids rand' where p: "perm rand (length x) = (ids, rand')"
      by (cases "perm rand (length x)")
    from perm [of rand "length x"] p
    have d: "distinct ids" and s: "set ids = {0..<length x}" by simp_all
    note pre = permutation_prefix [OF d s True]
    have rows: "take_rows x (take n ids) = Inr (map (\<lambda>i. x ! i) (take n ids))"
      using pre(4) by (simp add: take_rows_def)
    from Cons.IH [of rand'] obtain Y where
      Y: "downsampling perm n rand' X = Inr Y" and rel: "list_all2 (\<lambda>x y. if n < length x
                            then length y = n \<and>
                              (\<exists>g. distinct (take n (fst (perm g (length x)))) \<and>
                                   set (take n (fst (perm g (length x)))) \<subseteq> {0..<length x} \<and>
                                   y = map (\<lambda>i. x ! i) (take n (fst (perm g (length x)))))
                            else y = x) X Y"
      by blast
    have run: "downsampling perm n rand (x # X) = Inr (map (\<lambda>i. x ! i) (take n ids) # Y)"
      using True p rows Y by simp
    have here: "\<exists>g. distinct (take n (fst (perm g (length x)))) \<and>
                   set (take n (fst (perm g (length x)))) \<subseteq> {0..<length x} \<and>
                   map (\<lambda>i. x ! i) (take n ids) =
                     map (\<lambda>i. x ! i) (take n (fst (perm g (length x))))"
      using pre(2,3) p by (intro exI [of _ rand]) simp
    show ?thesis
      unfolding run using True pre(1) here rel by simp
  qed
qed


text \<open>
  C7.  \<^verbatim>\<open>X\<close> is the tuple of arguments, or the tuple or list that stands in its first
  place.  When one of its elements is not an array, \<^verbatim>\<open>fast_tsne\<close> raises
  \<^verbatim>\<open>ValueError\<close>.  When all are arrays and \<^verbatim>\<open>n_samples\<close> is a positive integer, the
  arrays that go on to the embedding are, one for one: for an array of more than
  \<^verbatim>\<open>n_samples\<close> rows, exactly \<^verbatim>\<open>n_samples\<close> of its rows, those at the first
  \<^verbatim>\<open>n_samples\<close> indices of a permutation drawn from the seeded generator (distinct
  indices, all in range); for any other array, the array itself.  The assumption is
  numpy's: \<^verbatim>\<open>permutation(m)\<close> is a permutation of the numbers below \<^verbatim>\<open>m\<close>.
\<close>

theorem fast_tsne_downsamples_and_checks_arrays:
  assumes perm: "\<And>g m. distinct (fst (rand_permutation env g m)) \<and>
                        set (fst (rand_permutation env g m)) = {0..<m}"
  shows "(X \<noteq> [] \<and> \<not> list_all is_ndarray (case hd X of Sequence xs \<Rightarrow> xs | _ \<Rightarrow> X) \<longrightarrow>
            embedded_arrays env X n_samples random_state =
              Inl (ValueError ''`X` can only be list of numpy.ndarray or numpy.ndarray'')) \<and>
         (check_inputs X = Inr X1 \<and> 0 < n \<longrightarrow>
            (\<exists>Y. embedded_arrays env X (Some n) random_state = Inr Y \<and>
               list_all2
                 (\<lambda>x y. if nat n < length x
                    then length y = nat n \<and>
                      (\<exists>g. distinct (take (nat n) (fst (rand_permutation env g (length x)))) \<and>
                           set (take (nat n) (fst (rand_permutation env g (length x))))
                             \<subseteq> {0..<length x} \<and>
                           y = map (\<lambda>i. x ! i)
                                 (take (nat n) (fst (rand_permutation env g (length x)))))
                    else y = x) X1 Y))"
proof (intro conjI impI)
  assume "X \<noteq> [] \<and> \<not> list_all is_ndarray (case hd X of Sequence xs \<Rightarrow> xs | _ \<Rightarrow> X)"
  then show "embedded_arrays env X n_samples random_state =
              Inl (ValueError ''`X` can only be list of numpy.ndarray or numpy.ndarray'')"
    by (cases X) (auto simp: embedded_arrays_def check_inputs_def Let_def split: arg.splits)
next
  assume a: "check_inputs X = Inr X1 \<and> 0 < n"
  let ?rand = "case as_RandomState env random_state of
                 Some g \<Rightarrow> g | None \<Rightarrow> RandomState_seed env random_state"
  from a have run: "embedded_arrays env X (Some n) random_state =
                      downsampling (rand_permutation env) (nat n) ?rand X1"
    by (simp add: embedded_arrays_def)
  show "\<exists>Y. embedded_arrays env X (Some n) random_state = Inr Y \<and>
               list_all2
                 (\<lambda>x y. if nat n < length x
                    then length y = nat n \<and>
                      (\<exists>g. distinct (take (nat n) (fst (rand_permutation env g (length x)))) \<and>
                           set (take (nat n) (fst (rand_permutation env g (length x))))
                             \<subseteq> {0..<length x} \<and>
                           y = map (\<lambda>i. x ! i)
                                 (take (nat n) (fst (rand_permutation env g (length x)))))
                    else y = x) X1 Y"
    unfolding run by (rule downsampling_selects [OF perm])
qed

text \<open>The theorem at two arrays of four and two rows and \<^verbatim>\<open>n_samples=2\<close>, and at an argument that is no array.\<close>

theorem fast_tsne_downsamples_and_checks_arrays_witness:
  "embedded_arrays
     \<lparr>as_RandomState = (\<lambda>s. None), RandomState_seed = (\<lambda>s :: nat. s),
      rand_permutation = (\<lambda>g n. (rev [0..<n], Suc g)),
      md5_checksum = (\<lambda>x :: nat list. 0), py_repr = (\<lambda>v. ''v''), cuml_importable = False,
      MulticoreTSNE_importable = False,
      TSNE_fit_transform = (\<lambda>v kw x. (x, ())), MPI_order = (\<lambda>jobs. jobs)\<rparr>
     [NDArray [10, 20, 30, 40], NDArray [1, 2]] (Some 2) 1234
   = Inr [[40, 30], [1, 2]] \<and>
   embedded_arrays
     \<lparr>as_RandomState = (\<lambda>s. None), RandomState_seed = (\<lambda>s :: nat. s),
      rand_permutation = (\<lambda>g n. (rev [0..<n], Suc g)),
      md5_checksum = (\<lambda>x :: nat list. 0), py_repr = (\<lambda>v. ''v''), cuml_importable = False,
      MulticoreTSNE_importable = False,
      TSNE_fit_transform = (\<lambda>v kw x. (x, ())), MPI_order = (\<lambda>jobs. jobs)\<rparr>
     [NDArray [10, 20, 30, 40], Other] (Some 2) 1234
   = Inl (ValueError ''`X` can only be list of numpy.ndarray or numpy.ndarray'')"
proof -
  let ?env = "\<lparr>as_RandomState = (\<lambda>s. None), RandomState_seed = (\<lambda>s :: nat. s),
      rand_permutation = (\<lambda>g n. (rev [0..<n], Suc g)),
      md5_checksum = (\<lambda>x :: nat list. 0 :: nat), py_repr = (\<lambda>v. ''v''), cuml_importable = False,
      MulticoreTSNE_importable = False,
      TSNE_fit_transform = (\<lambda>v kw x. (x :: nat list, ())), MPI_order = (\<lambda>jobs. jobs)\<rparr>"
  have perm: "distinct (fst (rand_permutation ?env g m)) \<and>
              set (fst (rand_permutation ?env g m)) = {0..<m}" for g m
    by simp
  have ok: "check_inputs [NDArray [10, 20, 30, 40 :: nat], NDArray [1, 2]]
              = Inr [[10, 20, 30, 40], [1, 2]] \<and> (0 :: int) < 2"
    by (simp add: check_inputs_def)
  have bad: "[NDArray [10, 20, 30, 40 :: nat], Other] \<noteq> [] \<and>
             \<not> list_all is_ndarray
                 (case hd [NDArray [10, 20, 30, 40 :: nat], Other] of
                    Sequence xs \<Rightarrow> xs | _ \<Rightarrow> [NDArray [10, 20, 30, 40], Other])"
    by simp
  note th = fast_tsne_downsamples_and_checks_arrays [of ?env, OF perm]
  have second: "embedded_arrays ?env [NDArray [10, 20, 30, 40], Other] (Some 2) 1234
                  = Inl (ValueError ''`X` can only be list of numpy.ndarray or numpy.ndarray'')"
    by (rule mp [OF conjunct1 [OF th] bad])
  from mp [OF conjunct2 [OF th] ok, of 1234]
  obtain Y where Y: "embedded_arrays ?env [NDArray [10, 20, 30, 40], NDArray [1, 2]] (Some 2) 1234
                       = Inr Y"
    by blast
  have first: "embedded_arrays ?env [NDArray [10, 20, 30, 40], NDArray [1, 2]] (Some 2) 1234
                 = Inr [[40, 30], [1, 2]]"
    using Y by (simp add: embedded_arrays_def check_inputs_def take_rows_def upt_rec numeral_eq_Suc)
  show ?thesis
    using first second by (rule conjI)
qed

text \<open>
  The cache key does not depend on \<^verbatim>\<open>verbose\<close>, and with \<^verbatim>\<open>combined=True\<close> and
  \<^verbatim>\<open>return_model=False\<close> a second call that differs from the first in \<^verbatim>\<open>verbose\<close>
  only returns what the first returned and leaves the cache as it is, whatever
  \<^verbatim>\<open>fit_transform\<close> would compute; under \<^verbatim>\<open>sklearn\<close> this takes that \<^verbatim>\<open>MPI\<close> hands
  back nothing for no job.
\<close>

lemma create_key_update_verbose:
  "create_key r fw (AList.update ''verbose'' v1 kw) md5
     = create_key r fw (AList.update ''verbose'' v2 kw) md5"
  by (simp add: create_key_def update_conv' delete_update_same)

lemma kwargs_update_verbose:
  "modify_kwargs v (locals_kwargs (a\<lparr>arg_verbose := w\<rparr>))
     = AList.update ''verbose'' w (modify_kwargs v (locals_kwargs a))"
  by (cases v) (simp_all add: modify_kwargs_def locals_kwargs_def)

lemma create_key_verbose:
  "create_key r fw (modify_kwargs v (locals_kwargs (a\<lparr>arg_verbose := v1\<rparr>))) md5
     = create_key r fw (modify_kwargs v (locals_kwargs (a\<lparr>arg_verbose := v2\<rparr>))) md5"
  unfolding kwargs_update_verbose by (rule create_key_update_verbose)

lemma create_key_defined:
  "\<exists>k. create_key r fw (modify_kwargs v (locals_kwargs a)) md5 = Inr k"
  by (cases v) (simp_all add: create_key_def modify_kwargs_def locals_kwargs_def)

lemma fast_tsne_combined_miss:
  assumes "embedded_arrays env X n (arg_random_state a) = Inr (x0 # rest)"
    and "v = import_TSNE env fs" and "kwargs = modify_kwargs v (locals_kwargs a)"
    and "x = (if length (x0 # rest) > 1 then concat (x0 # rest) else x0)"
    and "create_key (py_repr env) (version_name v) kwargs (md5_checksum env x) = Inr k"
    and "cache k = None"
  shows "fast_tsne env X a n True rm fs cache =
           (cache(k \<mapsto> fst (TSNE_fit_transform env v kwargs x)),
            return_and_clean True (map length (x0 # rest))
              [(0, fst (TSNE_fit_transform env v kwargs x))] rm
              (Model (if rm then Some (snd (TSNE_fit_transform env v kwargs x)) else None)))"
proof -
  have look: "getting_cached_values env v kwargs True (x0 # rest) cache =
                Inr (([], [(0, md5_checksum env x, x)]), map length (x0 # rest))"
    using assms(4,5,6) by (simp add: getting_cached_values_def lookup_one_def Let_def)
  have perf: "perform_tsne env v kwargs rm [(0, md5_checksum env x, x)] [] cache =
                (cache(k \<mapsto> fst (TSNE_fit_transform env v kwargs x)),
                 Inr ([(0, fst (TSNE_fit_transform env v kwargs x))],
                      cache(k \<mapsto> fst (TSNE_fit_transform env v kwargs x)),
                      Model (if rm then Some (snd (TSNE_fit_transform env v kwargs x)) else None)))"
    using assms(5)
    by (simp add: perform_tsne_def apply_tsne_def split: prod.splits)
  show ?thesis
    using assms(1) look perf
    by (simp add: fast_tsne_def assms(2) [symmetric] assms(3) [symmetric] Let_def)
qed

lemma fast_tsne_combined_hit:
  assumes "embedded_arrays env X n (arg_random_state a) = Inr (x0 # rest)"
    and "v = import_TSNE env fs" and "kwargs = modify_kwargs v (locals_kwargs a)"
    and "x = (if length (x0 # rest) > 1 then concat (x0 # rest) else x0)"
    and "create_key (py_repr env) (version_name v) kwargs (md5_checksum env x) = Inr k"
    and "cache k = Some y"
  shows "v \<noteq> Sklearn \<Longrightarrow>
           fast_tsne env X a n True rm fs cache =
             (cache, return_and_clean True (map length (x0 # rest)) [(0, y)] rm Unbound)"
    and "v = Sklearn \<Longrightarrow> MPI_order env [] = [] \<Longrightarrow>
           fast_tsne env X a n True rm fs cache =
             (cache, return_and_clean True (map length (x0 # rest)) [(0, y)] rm (Models []))"
proof -
  have look: "getting_cached_values env v kwargs True (x0 # rest) cache =
                Inr (([(0, y)], []), map length (x0 # rest))"
    using assms(4,5,6) by (simp add: getting_cached_values_def lookup_one_def Let_def)
  show "fast_tsne env X a n True rm fs cache =
             (cache, return_and_clean True (map length (x0 # rest)) [(0, y)] rm Unbound)"
    if "v \<noteq> Sklearn"
  proof -
    have perf: "perform_tsne env v kwargs rm [] [(0, y)] cache
                  = (cache, Inr ([(0, y)], cache, Unbound))"
      using that by (cases v) (simp_all add: perform_tsne_def)
    show ?thesis
      using assms(1) look perf
      by (simp add: fast_tsne_def assms(2) [symmetric] assms(3) [symmetric] Let_def)
  qed
  show "fast_tsne env X a n True rm fs cache =
             (cache, return_and_clean True (map length (x0 # rest)) [(0, y)] rm (Models []))"
    if "v = Sklearn" "MPI_order env [] = []"
  proof -
    have perf: "perform_tsne env v kwargs rm [] [(0, y)] cache
                  = (cache, Inr ([(0, y)], cache, Models []))"
      using that by (simp add: perform_tsne_def)
    show ?thesis
      using assms(1) look perf
      by (simp add: fast_tsne_def assms(2) [symmetric] assms(3) [symmetric] Let_def)
  qed
qed

lemma return_and_clean_no_model:
  "return_and_clean combined X_size results False m = return_and_clean combined X_size results False m'"
  by (simp add: return_and_clean_def Let_def split: sum.splits)

lemma embedded_arrays_other_fit:
  "embedded_arrays (env\<lparr>TSNE_fit_transform := f'\<rparr>) X n rs = embedded_arrays env X n rs"
  by (simp add: embedded_arrays_def split: sum.splits option.splits)

lemma second_call_returns_cached_embedding:
  assumes arrays: "embedded_arrays env X n (arg_random_state a) = Inr (x0 # rest)"
    and mpi: "import_TSNE env fs \<noteq> Sklearn \<or> MPI_order env [] = []"
  shows "fast_tsne (env\<lparr>TSNE_fit_transform := f'\<rparr>) X (a\<lparr>arg_verbose := v2\<rparr>) n True False fs
           (fst (fast_tsne env X (a\<lparr>arg_verbose := v1\<rparr>) n True False fs cache))
         = fast_tsne env X (a\<lparr>arg_verbose := v1\<rparr>) n True False fs cache"
proof -
  let ?env' = "env\<lparr>TSNE_fit_transform := f'\<rparr>"
  let ?a1 = "a\<lparr>arg_verbose := v1\<rparr>" and ?a2 = "a\<lparr>arg_verbose := v2\<rparr>"
  define v where "v = import_TSNE env fs"
  define x where "x = (if length (x0 # rest) > 1 then concat (x0 # rest) else x0)"
  obtain k where k1: "create_key (py_repr env) (version_name v)
                        (modify_kwargs v (locals_kwargs ?a1)) (md5_checksum env x) = Inr k"
    using create_key_defined [where r = "py_repr env" and fw = "version_name v" and v = v
        and a = ?a1 and ?md5.0 = "md5_checksum env x"]
    by (elim exE)
  then have k2: "create_key (py_repr ?env') (version_name v)
                   (modify_kwargs v (locals_kwargs ?a2)) (md5_checksum ?env' x) = Inr k"
    using create_key_verbose [where r = "py_repr env" and fw = "version_name v" and v = v
        and a = a and ?v1.0 = v1 and ?v2.0 = v2 and ?md5.0 = "md5_checksum env x"]
    by simp
  have arr1: "embedded_arrays env X n (arg_random_state ?a1) = Inr (x0 # rest)"
    using arrays by simp
  have arr2: "embedded_arrays ?env' X n (arg_random_state ?a2) = Inr (x0 # rest)"
    using arrays by (simp add: embedded_arrays_other_fit)
  have v': "v = import_TSNE ?env' fs"
    by (simp add: v_def import_TSNE_def)
  have second: "fast_tsne ?env' X ?a2 n True False fs c =
                  (c, return_and_clean True (map length (x0 # rest)) [(0, y)] False Unbound)"
    if "c k = Some y" for c y
  proof (cases "v = Sklearn")
    case False
    show ?thesis
      by (rule fast_tsne_combined_hit(1) [where cache = c, OF arr2 v' refl x_def k2 that False])
  next
    case True
    with mpi have "MPI_order ?env' [] = []" by (simp add: v_def)
    from fast_tsne_combined_hit(2) [where cache = c, OF arr2 v' refl x_def k2 that True this]
    show ?thesis
      by (simp add: return_and_clean_no_model [of _ _ _ "Models []" Unbound])
  qed
  show ?thesis
  proof (cases "cache k")
    case None
    let ?y = "fst (TSNE_fit_transform env v (modify_kwargs v (locals_kwargs ?a1)) x)"
    have first: "fast_tsne env X ?a1 n True False fs cache =
                   (cache(k \<mapsto> ?y),
                    return_and_clean True (map length (x0 # rest)) [(0, ?y)] False (Model None))"
      using fast_tsne_combined_miss [where cache = cache, OF arr1 v_def refl x_def k1 None, of False]
      by simp
    show ?thesis
      unfolding first fst_conv
      by (subst second [of "cache(k \<mapsto> ?y)" ?y])
         (simp_all add: return_and_clean_no_model [of _ _ _ "Model None" Unbound])
  next
    case (Some y)
    have first: "fast_tsne env X ?a1 n True False fs cache =
                   (cache, return_and_clean True (map length (x0 # rest)) [(0, y)] False Unbound)"
    proof (cases "v = Sklearn")
      case False
      show ?thesis
        by (rule fast_tsne_combined_hit(1) [where cache = cache, OF arr1 v_def refl x_def k1 Some False])
    next
      case True
      with mpi have "MPI_order env [] = []" by (simp add: v_def)
      from fast_tsne_combined_hit(2) [where cache = cache, OF arr1 v_def refl x_def k1 Some True this]
      show ?thesis
        by (simp add: return_and_clean_no_model [of _ _ _ "Models []" Unbound])
    qed
    show ?thesis
      unfolding first fst_conv by (rule second [of cache y, OF Some])
  qed
qed


text \<open>
  C10.  The claim is that a second call, differing from the first in \<^verbatim>\<open>verbose\<close>
  only, returns the embedding the first one stored.  With \<^verbatim>\<open>return_model=True\<close> under
  \<^verbatim>\<open>MulticoreTSNE\<close> the first call returns the embedding and the model; the second
  finds the embedding in the cache, runs the loop over no job, which never binds
  \<^verbatim>\<open>model\<close>, and raises \<^verbatim>\<open>UnboundLocalError\<close> at \<^verbatim>\<open>return results, model\<close>.
\<close>

theorem fast_tsne_cached_call_return_model_unbound:
  "snd (fast_tsne multicore_environment [NDArray [1, 2, 3]] default_arguments None True True
          False Map.empty)
     = Inr (One [1, 2, 3], Some (Model (Some ()))) \<and>
   snd (fast_tsne multicore_environment [NDArray [1, 2, 3]]
          (default_arguments\<lparr>arg_verbose := ''1''\<rparr>) None True True False
          (fst (fast_tsne multicore_environment [NDArray [1, 2, 3]] default_arguments None True
                  True False Map.empty)))
     = Inl (UnboundLocalError ''model'')"
proof -
  let ?env = multicore_environment and ?X = "[NDArray [1, 2, 3 :: nat]]"
  let ?a2 = "default_arguments\<lparr>arg_verbose := ''1''\<rparr>"
  have v: "Multicore = import_TSNE ?env False"
    by (simp add: import_TSNE_def multicore_environment_def)
  have x: "[1, 2, 3 :: nat] =
             (if length ([1, 2, 3 :: nat] # []) > 1 then concat ([1, 2, 3] # []) else [1, 2, 3])"
    by simp
  have arr: "embedded_arrays ?env ?X None (arg_random_state a) = Inr ([1, 2, 3] # [])"
    for a :: "string tsne_arguments"
    by (simp add: embedded_arrays_def check_inputs_def)
  obtain k where k1: "create_key (py_repr ?env) (version_name Multicore)
                        (modify_kwargs Multicore (locals_kwargs default_arguments))
                        (md5_checksum ?env [1, 2, 3]) = Inr k"
    using create_key_defined [where r = "py_repr ?env" and fw = "version_name Multicore"
        and v = Multicore and a = default_arguments and ?md5.0 = "md5_checksum ?env [1, 2, 3]"]
    by (elim exE)
  have k2: "create_key (py_repr ?env) (version_name Multicore)
              (modify_kwargs Multicore (locals_kwargs ?a2)) (md5_checksum ?env [1, 2, 3]) = Inr k"
    using k1 create_key_verbose [where r = "py_repr ?env" and fw = "version_name Multicore"
        and v = Multicore and a = default_arguments and ?v1.0 = "arg_verbose default_arguments"
        and ?v2.0 = "''1''" and ?md5.0 = "md5_checksum ?env [1, 2, 3]"]
    by simp
  have fit: "TSNE_fit_transform ?env ver kw xs = (xs, ())" for ver kw xs
    by (simp add: multicore_environment_def)
  have first: "fast_tsne ?env ?X default_arguments None True True False Map.empty =
                 (Map.empty(k \<mapsto> [1, 2, 3]), Inr (One [1, 2, 3], Some (Model (Some ()))))"
    using fast_tsne_combined_miss [where cache = Map.empty and rm = True, OF arr v refl x k1]
    by (simp add: fit return_and_clean_def)
  have second: "fast_tsne ?env ?X ?a2 None True True False (Map.empty(k \<mapsto> [1, 2, 3])) =
                  (Map.empty(k \<mapsto> [1, 2, 3]), Inl (UnboundLocalError ''model''))"
    using fast_tsne_combined_hit(1) [where cache = "Map.empty(k \<mapsto> [1, 2, 3])"
        and y = "[1, 2, 3]" and rm = True, OF arr v refl x k2]
    by (simp add: return_and_clean_def)
  show ?thesis
    unfolding first fst_conv snd_conv second by simp
qed

end
